theory Spec2Isabelle
  imports Main "HOL-Library.Sublist"
begin

section \<open>Strings, runes and errors\<close>

text \<open>
  A Go string is a sequence of bytes; it is modelled as \<^typ>\<open>string\<close>, a list of
  8-bit characters. A rune is a Unicode code point, modelled as a natural number.
\<close>

type_synonym rune = nat

text \<open>
  Error values. \<open>ErrorNew m\<close> is the value of \<open>errors.New(m)\<close>, \<open>ErrorWrap m e\<close> the
  value of \<open>fmt.Errorf(m + ": %w", e)\<close>, \<open>ErrExternal m\<close> an error value that an
  external package (IDNA conversion, an output sink, the SMTP relay) hands back, and
  \<open>Panic m\<close> a run-time panic. In this package every caller passes an error on with
  \<open>if err != nil { return ... err }\<close>, the path a panic unwinds as well, so the panic
  travels through the model as a value of its own constructor.
\<close>

datatype error =
    ErrorNew string
  | ErrorWrap string error
  | ErrExternal string
  | Panic string

definition ErrUnicodeMailbox :: error where
  "ErrUnicodeMailbox = ErrorNew ''address: cannot convert the Unicode local-part to the ACE form''"

definition RuneError :: rune where
  "RuneError = 65533"

text \<open>
  \<open>for _, ch := range s\<close> decodes the string as UTF-8, one rune at a time; a byte that
  starts no well-formed encoding yields \<open>RuneError\<close> (U+FFFD) and the iteration advances
  by one byte. \<open>DecodeRune\<close> returns the rune and the number of bytes it takes.
\<close>

definition cont :: "nat \<Rightarrow> nat \<Rightarrow> char \<Rightarrow> bool" where
  "cont lo hi c = (lo \<le> (of_char c :: nat) \<and> (of_char c :: nat) \<le> hi)"

fun DecodeRune :: "string \<Rightarrow> rune \<times> nat" where
  "DecodeRune [] = (RuneError, 0)"
| "DecodeRune (c # cs) =
     (let x = (of_char c :: nat) in
      if x < 128 then (x, 1)
      else if 194 \<le> x \<and> x \<le> 223 then
        (case cs of
           c1 # _ \<Rightarrow>
             if cont 128 191 c1 then ((x mod 32) * 64 + of_char c1 mod 64, 2)
             else (RuneError, 1)
         | _ \<Rightarrow> (RuneError, 1))
      else if 224 \<le> x \<and> x \<le> 239 then
        (case cs of
           c1 # c2 # _ \<Rightarrow>
             if cont (if x = 224 then 160 else 128) (if x = 237 then 159 else 191) c1
                \<and> cont 128 191 c2
             then ((x mod 16) * 4096 + (of_char c1 mod 64) * 64 + of_char c2 mod 64, 3)
             else (RuneError, 1)
         | _ \<Rightarrow> (RuneError, 1))
      else if 240 \<le> x \<and> x \<le> 244 then
        (case cs of
           c1 # c2 # c3 # _ \<Rightarrow>
             if cont (if x = 240 then 144 else 128) (if x = 244 then 143 else 191) c1
                \<and> cont 128 191 c2 \<and> cont 128 191 c3
             then ((x mod 8) * 262144 + (of_char c1 mod 64) * 4096
                   + (of_char c2 mod 64) * 64 + of_char c3 mod 64, 4)
             else (RuneError, 1)
         | _ \<Rightarrow> (RuneError, 1))
      else (RuneError, 1))"

function runes :: "string \<Rightarrow> rune list" where
  "runes [] = []"
| "runes (c # cs) = fst (DecodeRune (c # cs)) # runes (drop (snd (DecodeRune (c # cs))) (c # cs))"
  by pat_completeness auto
termination
proof (relation "measure length")
  show "wf (measure length)" by simp
next
  fix c :: char and cs :: string
  have "1 \<le> snd (DecodeRune (c # cs))"
    by (simp add: Let_def split: list.split)
  then show "(drop (snd (DecodeRune (c # cs))) (c # cs), c # cs) \<in> measure length"
    by simp
qed

section \<open>External collaborators\<close>

text \<open>
  The packages the repository imports are not part of it. What the code needs of them
  is a parameter of the model, collected in one record:
  \<^item> \<open>idna_ToASCII\<close>, \<open>idna_ToUnicode\<close>: \<open>idna.ToASCII\<close> and \<open>idna.ToUnicode\<close>, which
    return a string together with an error or nil;
  \<^item> \<open>norm_NFC\<close>: \<open>norm.NFC.String\<close>;
  \<^item> \<open>unicode_fold\<close>: for runes \<open>sr < tr\<close> with \<open>tr\<close> outside ASCII, whether iterating
    \<open>unicode.SimpleFold\<close> from \<open>sr\<close> reaches \<open>tr\<close> (the general case of
    \<open>strings.EqualFold\<close>);
  \<^item> \<open>strings_TrimSpace\<close>: \<open>strings.TrimSpace\<close>;
  \<^item> \<open>time_IsZero\<close>, \<open>time_Format\<close> (with the package's \<open>timeLayout\<close>),
    \<open>time_Truncate\<close> (to \<open>time.Second\<close>), \<open>time_String\<close> and \<open>time_Now\<close> for the type
    \<open>'t\<close> of \<open>time.Time\<close> values;
  \<^item> \<open>randomBoundary\<close>: the boundary that \<open>textproto.NewMultipartWriter\<close> draws;
  \<^item> \<open>formatHeaderField\<close>: the bytes that \<open>textproto.WriteHeader\<close> writes for one field
    that it accepts, given the name and the value passed to \<open>Add\<close> (the line
    \<open>name: value\<close> with the name in canonical case, folded, CRLF at its end);
  \<^item> \<open>textproto_fieldError\<close>: the error that \<open>textproto.WriteHeader\<close> returns for a
    field that it refuses, given the number of the field in writing order, its name and
    its value;
  \<^item> \<open>smtp_reply\<close>: the error, if any, with which the relay answers the last event of
    an SMTP session;
  \<^item> \<open>SMTPError_Error\<close>: the text of the method \<open>Error\<close> of a \<open>*smtp.SMTPError\<close>
    with the given reply code, enhanced code and message.
\<close>

type_synonym header = "(string \<times> string) list"

datatype smtp_event =
    Dial string
  | Hello string
  | Mail string
  | Rcpt string
  | Data
  | DataWrite string
  | DataClose
  | Close

record 't lib =
  idna_ToASCII :: "string \<Rightarrow> string \<times> error option"
  idna_ToUnicode :: "string \<Rightarrow> string \<times> error option"
  norm_NFC :: "string \<Rightarrow> string"
  unicode_fold :: "rune \<Rightarrow> rune \<Rightarrow> bool"
  strings_TrimSpace :: "string \<Rightarrow> string"
  time_IsZero :: "'t \<Rightarrow> bool"
  time_Format :: "'t \<Rightarrow> string"
  time_Truncate :: "'t \<Rightarrow> 't"
  time_String :: "'t \<Rightarrow> string"
  time_Now :: "'t"
  randomBoundary :: string
  formatHeaderField :: "string \<Rightarrow> string \<Rightarrow> string"
  textproto_fieldError :: "nat \<Rightarrow> string \<Rightarrow> string \<Rightarrow> error"
  smtp_reply :: "smtp_event list \<Rightarrow> error option"
  SMTPError_Error :: "int \<Rightarrow> int \<times> int \<times> int \<Rightarrow> string \<Rightarrow> string"

subsection \<open>strings.EqualFold and strings.LastIndexByte\<close>

text \<open>
  \<open>strings.EqualFold\<close> compares two strings rune by rune under simple case folding:
  equal runes match; otherwise, with \<open>sr\<close> the smaller and \<open>tr\<close> the larger rune, an
  ASCII \<open>tr\<close> matches exactly the upper-case letter \<open>sr = tr - 32\<close>, and a \<open>tr\<close> outside
  ASCII matches when \<open>unicode.SimpleFold\<close> leads from \<open>sr\<close> to it.
\<close>

definition foldEq :: "(rune \<Rightarrow> rune \<Rightarrow> bool) \<Rightarrow> rune \<Rightarrow> rune \<Rightarrow> bool" where
  "foldEq orbit a b =
     (let sr = min a b; tr = max a b in
      if tr = sr then True
      else if tr < 128 then 65 \<le> sr \<and> sr \<le> 90 \<and> tr = sr + 32
      else orbit sr tr)"

fun EqualFoldRunes :: "(rune \<Rightarrow> rune \<Rightarrow> bool) \<Rightarrow> rune list \<Rightarrow> rune list \<Rightarrow> bool" where
  "EqualFoldRunes orbit [] [] = True"
| "EqualFoldRunes orbit (a # as) (b # bs) = (foldEq orbit a b \<and> EqualFoldRunes orbit as bs)"
| "EqualFoldRunes orbit _ _ = False"

definition EqualFold :: "'t lib \<Rightarrow> string \<Rightarrow> string \<Rightarrow> bool" where
  "EqualFold L s t = EqualFoldRunes (unicode_fold L) (runes s) (runes t)"

text \<open>\<open>strings.LastIndexByte\<close>: the index of the last occurrence, \<open>None\<close> for Go's -1.\<close>

fun LastIndexByte :: "string \<Rightarrow> char \<Rightarrow> nat option" where
  "LastIndexByte [] b = None"
| "LastIndexByte (c # cs) b =
     (case LastIndexByte cs b of
        Some i \<Rightarrow> Some (Suc i)
      | None \<Rightarrow> if c = b then Some 0 else None)"

section \<open>Addresses (split, toASCII, toUnicode)\<close>

text \<open>\<open>split\<close> returns \<open>(mailbox, domain, err)\<close>; the model returns the error on the left.\<close>

definition split :: "'t lib \<Rightarrow> string \<Rightarrow> error + string \<times> string" where
  "split L addr =
     (if EqualFold L addr ''postmaster'' then Inr (addr, [])
      else
        (case LastIndexByte addr (CHR ''@'') of
           None \<Rightarrow> Inl (ErrorNew ''address: missing at-sign'')
         | Some indx \<Rightarrow>
             (let mailbox = take indx addr; domain = drop (indx + 1) addr in
              if mailbox = [] then Inl (ErrorNew ''address: empty local-part'')
              else if domain = [] then Inl (ErrorNew ''address: empty domain'')
              else Inr (mailbox, domain))))"

definition toASCII :: "'t lib \<Rightarrow> string \<Rightarrow> string \<times> error option" where
  "toASCII L addr =
     (case split L addr of
        Inl err \<Rightarrow> (addr, Some err)
      | Inr (mbox, domain) \<Rightarrow>
          if list_ex (\<lambda>ch. ch > 128) (runes mbox) then (addr, Some ErrUnicodeMailbox)
          else if domain = [] then (mbox, None)
          else
            (case idna_ToASCII L domain of
               (aDomain, Some err) \<Rightarrow> (addr, Some err)
             | (aDomain, None) \<Rightarrow> (mbox @ ''@'' @ aDomain, None)))"

definition toUnicode :: "'t lib \<Rightarrow> string \<Rightarrow> string \<times> error option" where
  "toUnicode L addr =
     (case split L addr of
        Inl err \<Rightarrow> (norm_NFC L addr, Some err)
      | Inr (mbox, domain) \<Rightarrow>
          if domain = [] then (mbox, None)
          else
            (case idna_ToUnicode L domain of
               (uDomain, Some err) \<Rightarrow> (norm_NFC L addr, Some err)
             | (uDomain, None) \<Rightarrow> (mbox @ ''@'' @ norm_NFC L uDomain, None)))"

definition addrSelectIDNA :: "'t lib \<Rightarrow> bool \<Rightarrow> string \<Rightarrow> string \<times> error option" where
  "addrSelectIDNA L ulabel addr = (if ulabel then toUnicode L addr else toASCII L addr)"

definition dnsSelectIDNA :: "'t lib \<Rightarrow> bool \<Rightarrow> string \<Rightarrow> string \<times> error option" where
  "dnsSelectIDNA L ulabel domain =
     (if ulabel then
        (case idna_ToUnicode L domain of (uDomain, err) \<Rightarrow> (norm_NFC L uDomain, err))
      else idna_ToASCII L domain)"

section \<open>Formatting and writers\<close>

text \<open>\<open>%d\<close> of \<open>fmt.Sprintf\<close>: a Go \<open>int\<close> in decimal, with a minus sign when negative.\<close>

function digits :: "nat \<Rightarrow> string" where
  "digits n = (if n < 10 then [''0123456789'' ! n] else digits (n div 10) @ [''0123456789'' ! (n mod 10)])"
  by pat_completeness auto
termination
  by (relation "measure id") auto

declare digits.simps [simp del]

definition Itoa :: "int \<Rightarrow> string" where
  "Itoa i = (if i < 0 then ''-'' @ digits (nat (- i)) else digits (nat i))"

definition CRLF :: string where
  "CRLF = [CHR 0x0D, CHR 0x0A]"

text \<open>
  An \<open>io.Writer\<close> is a state \<open>'w\<close> with its \<open>Write\<close> method, which returns the new
  state and an error or nil. \<open>Buffer_Write\<close> is the method of \<open>bytes.Buffer\<close>, whose
  state is the bytes written so far and which never fails.
\<close>

type_synonym 'w writer = "'w \<Rightarrow> string \<Rightarrow> 'w \<times> error option"

definition Buffer_Write :: "string writer" where
  "Buffer_Write b d = (b @ d, None)"

text \<open>Successive \<open>Write\<close> calls, stopping at the first error.\<close>

fun writeAll :: "'w writer \<Rightarrow> 'w \<Rightarrow> string list \<Rightarrow> 'w \<times> error option" where
  "writeAll W w [] = (w, None)"
| "writeAll W w (d # ds) =
     (case W w d of
        (w', Some err) \<Rightarrow> (w', Some err)
      | (w', None) \<Rightarrow> writeAll W w' ds)"

text \<open>
  \<open>textproto.Header\<close> of go-message: the model keeps the fields added with \<open>Add\<close> in
  the order of the calls, as the library's slice does (every header of this package is
  built with \<open>Add\<close>; a field read from a message, which would carry its original
  bytes, is outside the model). \<open>Add\<close> inserts a field at the
  top of the header, so \<open>textproto.WriteHeader\<close> walks the slice from its last element
  to its first: the field added last is written first. After the fields it writes an
  empty line.

  \<open>WriteHeader\<close> has an error of its own. A field is written only if every character
  of its name is printable ASCII (\<open>!\<close> to \<open>~\<close>) other than the colon and its value
  contains neither CR nor LF; at the first field that is not so, \<open>WriteHeader\<close> returns
  an error, and neither that field, nor the fields after it, nor the empty line are
  written. (Putting the name into canonical case changes letters into letters, so the
  test accepts a name exactly when it accepts the name as passed to \<open>Add\<close>.)
\<close>

definition Add :: "header \<Rightarrow> string \<Rightarrow> string \<Rightarrow> header" where
  "Add h k v = h @ [(k, v)]"

definition validFieldName :: "string \<Rightarrow> bool" where
  "validFieldName k = list_all (\<lambda>ch. (33 \<le> ch \<and> ch < 58) \<or> (58 < ch \<and> ch \<le> 126)) (runes k)"

definition validFieldValue :: "string \<Rightarrow> bool" where
  "validFieldValue v = (CHR 0x0D \<notin> set v \<and> CHR 0x0A \<notin> set v)"

text \<open>
  The loop of \<open>WriteHeader\<close> over the fields, given in writing order; \<open>n\<close> is the number
  of the field at the head of the list.
\<close>

fun writeFields ::
  "'t lib \<Rightarrow> 'w writer \<Rightarrow> 'w \<Rightarrow> nat \<Rightarrow> (string \<times> string) list \<Rightarrow> 'w \<times> error option" where
  "writeFields L W w n [] = (w, None)"
| "writeFields L W w n ((k, v) # fs) =
     (if validFieldName k \<and> validFieldValue v then
        (case W w (formatHeaderField L k v) of
           (w', Some err) \<Rightarrow> (w', Some err)
         | (w', None) \<Rightarrow> writeFields L W w' (Suc n) fs)
      else (w, Some (textproto_fieldError L n k v)))"

definition WriteHeader :: "'t lib \<Rightarrow> 'w writer \<Rightarrow> 'w \<Rightarrow> header \<Rightarrow> 'w \<times> error option" where
  "WriteHeader L W w h =
     (case writeFields L W w 1 (rev h) of
        (w', Some err) \<Rightarrow> (w', Some err)
      | (w', None) \<Rightarrow> W w' CRLF)"

text \<open>
  \<open>textproto.MultipartWriter\<close> writes through to the writer it was created on:
  \<open>CreatePart\<close> puts the boundary line and the part's header together in a buffer of
  its own (with \<open>WriteHeader\<close>, whose error it does not look at) and writes the buffer
  in one \<open>Write\<close>, the part writer it returns passes every \<open>Write\<close> on (and remembers
  a failure, which the next \<open>CreatePart\<close> or \<open>Close\<close> reports), and \<open>Close\<close> writes
  the closing boundary line.
  \<open>mw_lastpart\<close> is \<open>None\<close> before the first part and \<open>Some we\<close> afterwards, \<open>we\<close>
  being the write error the current part has recorded.
\<close>

record 'w MultipartWriter =
  mw_w :: 'w
  mw_boundary :: string
  mw_lastpart :: "error option option"

definition NewMultipartWriter :: "'t lib \<Rightarrow> 'w \<Rightarrow> 'w MultipartWriter" where
  "NewMultipartWriter L w = \<lparr>mw_w = w, mw_boundary = randomBoundary L, mw_lastpart = None\<rparr>"

definition CreatePart ::
  "'t lib \<Rightarrow> 'w writer \<Rightarrow> 'w MultipartWriter \<Rightarrow> header \<Rightarrow> 'w MultipartWriter \<times> error option" where
  "CreatePart L W mw hdr =
     (case mw_lastpart mw of
        Some (Some err) \<Rightarrow> (mw, Some err)
      | _ \<Rightarrow>
          (let b = fst (WriteHeader L Buffer_Write
                          (if mw_lastpart mw \<noteq> None then CRLF @ ''--'' @ mw_boundary mw @ CRLF
                           else ''--'' @ mw_boundary mw @ CRLF)
                          hdr)
           in case W (mw_w mw) b of
                (w', Some err) \<Rightarrow> (mw\<lparr>mw_w := w'\<rparr>, Some err)
              | (w', None) \<Rightarrow> (mw\<lparr>mw_w := w', mw_lastpart := Some None\<rparr>, None)))"

definition part_Write :: "'w writer \<Rightarrow> 'w MultipartWriter writer" where
  "part_Write W mw d =
     (case W (mw_w mw) d of
        (w', Some err) \<Rightarrow> (mw\<lparr>mw_w := w', mw_lastpart := Some (Some err)\<rparr>, Some err)
      | (w', None) \<Rightarrow> (mw\<lparr>mw_w := w'\<rparr>, None))"

definition MultipartWriter_Close ::
  "'w writer \<Rightarrow> 'w MultipartWriter \<Rightarrow> 'w MultipartWriter \<times> error option" where
  "MultipartWriter_Close W mw =
     (case mw_lastpart mw of
        Some (Some err) \<Rightarrow> (mw, Some err)
      | _ \<Rightarrow>
          (case W (mw_w mw) (CRLF @ ''--'' @ mw_boundary mw @ ''--'' @ CRLF) of
             (w', err) \<Rightarrow> (mw\<lparr>mw_w := w', mw_lastpart := None\<rparr>, err)))"

section \<open>Delivery status fields (dsn.go)\<close>

definition xMTADefaultName :: string where
  "xMTADefaultName = ''Godsn''"

record 't ReportingMTAInfo =
  ReportingMTA :: string
  ReceivedFromMTA :: string
  XMTAName :: string
  XSender :: string
  XMessageID :: string
  ArrivalDate :: 't
  LastAttemptDate :: 't

text \<open>
  \<open>ReportingMTAInfo.WriteTo\<close> builds the header \<open>h\<close> and hands it to
  \<open>textproto.WriteHeader\<close>. \<open>ReportingMTAInfo_header\<close> is the function up to its last
  line: the header built, or the error of an early return.
\<close>

definition ReportingMTAInfo_header ::
  "'t lib \<Rightarrow> bool \<Rightarrow> 't ReportingMTAInfo \<Rightarrow> error + header" where
  "ReportingMTAInfo_header L utf8 info =
     (if ReportingMTA info = [] then Inl (ErrorNew ''dsn: Reporting-MTA field is mandatory'')
      else
        (case dnsSelectIDNA L utf8 (ReportingMTA info) of
           (reportingMTA, Some err) \<Rightarrow>
             Inl (ErrorWrap ''dsn: cannot convert Reporting-MTA to a suitable representation'' err)
         | (reportingMTA, None) \<Rightarrow>
             (let h1 = Add [] ''Reporting-MTA'' (''dns; '' @ reportingMTA);
                  name = (if XMTAName info = [] then xMTADefaultName else XMTAName info);
                  xHeaderPrefix = ''X-'' @ strings_TrimSpace L name
              in
                (case (if ReceivedFromMTA info \<noteq> [] then
                         (case dnsSelectIDNA L utf8 (ReceivedFromMTA info) of
                            (receivedFromMTA, Some err) \<Rightarrow>
                              Inl (ErrorWrap
                                ''dsn: cannot convert Received-From-MTA to a suitable representation'' err)
                          | (receivedFromMTA, None) \<Rightarrow>
                              Inr (Add h1 ''Received-From-MTA'' (''dns; '' @ receivedFromMTA)))
                       else Inr h1) of
                   Inl err \<Rightarrow> Inl err
                 | Inr h2 \<Rightarrow>
                     (case (if XSender info \<noteq> [] then
                              (case addrSelectIDNA L utf8 (XSender info) of
                                 (sender, Some err) \<Rightarrow>
                                   Inl (ErrorWrap (''dsn: cannot convert '' @ xHeaderPrefix
                                     @ ''-Sender to a suitable representation'') err)
                               | (sender, None) \<Rightarrow>
                                   (if utf8 then Inr (Add h2 (xHeaderPrefix @ ''-Sender'') (''utf8; '' @ sender))
                                    else Inr (Add h2 (xHeaderPrefix @ ''-Sender'') (''rfc822; '' @ sender))))
                            else Inr h2) of
                        Inl err \<Rightarrow> Inl err
                      | Inr h3 \<Rightarrow>
                          (let h4 = (if XMessageID info \<noteq> []
                                     then Add h3 (xHeaderPrefix @ ''-MsgID'') (XMessageID info) else h3);
                               h5 = (if \<not> time_IsZero L (ArrivalDate info)
                                     then Add h4 ''Arrival-Date'' (time_Format L (ArrivalDate info)) else h4);
                               h6 = (if \<not> time_IsZero L (ArrivalDate info)
                                     then Add h5 ''Last-Attempt-Date'' (time_Format L (LastAttemptDate info))
                                     else h5)
                           in Inr h6))))))"

definition ReportingMTAInfo_WriteTo ::
  "'t lib \<Rightarrow> 'w writer \<Rightarrow> bool \<Rightarrow> 'w \<Rightarrow> 't ReportingMTAInfo \<Rightarrow> 'w \<times> error option" where
  "ReportingMTAInfo_WriteTo L W utf8 w info =
     (case ReportingMTAInfo_header L utf8 info of
        Inl err \<Rightarrow> (w, Some err)
      | Inr h \<Rightarrow> WriteHeader L W w h)"

text \<open>
  \<open>DiagnosticCode\<close> is a value of the interface \<open>error\<close>: nil, a \<open>*smtp.SMTPError\<close>
  (reply code, enhanced code, message), or an error of any other type, of which the
  code reads only the text of \<open>Error()\<close>.
\<close>

datatype diagnostic =
    DiagNil
  | SMTPError int "int \<times> int \<times> int" string
  | OtherError string

record RecipientInfo =
  FinalRecipient :: string
  RemoteMTA :: string
  Action :: string
  Status :: "int \<times> int \<times> int"
  DiagnosticCode :: diagnostic
  xMTAName :: string

text \<open>\<open>newLineReplacer\<close> replaces each byte LF and each byte CR by one space.\<close>

definition newLineReplacer :: "string \<Rightarrow> string" where
  "newLineReplacer s = map (\<lambda>c. if c = CHR 0x0A \<or> c = CHR 0x0D then CHR '' '' else c) s"

definition Sprintf_code :: "int \<times> int \<times> int \<Rightarrow> string" where
  "Sprintf_code c = (case c of (a, b, d) \<Rightarrow> Itoa a @ ''.'' @ Itoa b @ ''.'' @ Itoa d)"

text \<open>
  \<open>RecipientInfo_header\<close> is \<open>RecipientInfo.WriteTo\<close> up to its last line. With a nil
  \<open>DiagnosticCode\<close> the type assertion fails, and in UTF-8 mode the call
  \<open>info.DiagnosticCode.Error()\<close> on the nil interface value panics.
\<close>

definition RecipientInfo_header :: "'t lib \<Rightarrow> bool \<Rightarrow> RecipientInfo \<Rightarrow> error + header" where
  "RecipientInfo_header L utf8 info =
     (if FinalRecipient info = [] then Inl (ErrorNew ''dsn: Final-Recipient is required'')
      else
        (case addrSelectIDNA L utf8 (FinalRecipient info) of
           (finalRcpt, Some err) \<Rightarrow>
             Inl (ErrorWrap ''dsn: cannot convert Final-Recipient to a suitable representation'' err)
         | (finalRcpt, None) \<Rightarrow>
             (let h1 = (if utf8 then Add [] ''Final-Recipient'' (''utf8; '' @ finalRcpt)
                        else Add [] ''Final-Recipient'' (''rfc822; '' @ finalRcpt))
              in
                if Action info = [] then Inl (ErrorNew ''dsn: Action is required'')
                else
                  (let h2 = Add h1 ''Action'' (Action info) in
                   if fst (Status info) = 0 then Inl (ErrorNew ''dsn: Status is required'')
                   else
                     (let h3 = Add h2 ''Status'' (Sprintf_code (Status info)) in
                      (case (case DiagnosticCode info of
                               SMTPError code enhanced message \<Rightarrow>
                                 Inr (Add h3 ''Diagnostic-Code''
                                        (''smtp; '' @ Itoa code @ '' '' @ Sprintf_code enhanced @ '' ''
                                         @ newLineReplacer message))
                             | OtherError text \<Rightarrow>
                                 (if utf8 then
                                    (let errorDesc = newLineReplacer text;
                                         name = (if xMTAName info = [] then xMTADefaultName
                                                 else xMTAName info);
                                         xHeaderPrefix = ''X-'' @ strings_TrimSpace L name
                                     in Inr (Add h3 ''Diagnostic-Code'' (xHeaderPrefix @ ''; '' @ errorDesc)))
                                  else Inr h3)
                             | DiagNil \<Rightarrow>
                                 (if utf8 then
                                    Inl (Panic ''runtime error: invalid memory address or nil pointer dereference'')
                                  else Inr h3)) of
                         Inl err \<Rightarrow> Inl err
                       | Inr h4 \<Rightarrow>
                           (if RemoteMTA info \<noteq> [] then
                              (case dnsSelectIDNA L utf8 (RemoteMTA info) of
                                 (remoteMTA, Some err) \<Rightarrow>
                                   Inl (ErrorWrap
                                     ''dsn: cannot convert Remote-MTA to a suitable representation'' err)
                               | (remoteMTA, None) \<Rightarrow>
                                   Inr (Add h4 ''Remote-MTA'' (''dns; '' @ remoteMTA)))
                            else Inr h4)))))))"

definition RecipientInfo_WriteTo ::
  "'t lib \<Rightarrow> 'w writer \<Rightarrow> bool \<Rightarrow> 'w \<Rightarrow> RecipientInfo \<Rightarrow> 'w \<times> error option" where
  "RecipientInfo_WriteTo L W utf8 w info =
     (case RecipientInfo_header L utf8 info of
        Inl err \<Rightarrow> (w, Some err)
      | Inr h \<Rightarrow> WriteHeader L W w h)"

section \<open>Report assembly (dsn.go)\<close>

record Envelope =
  MsgID :: string
  From :: string
  To :: string

text \<open>
  \<open>failedText.Execute\<close> writes the text of \<open>FailedTemplateText\<close> piece by piece, each
  \<open>{{.Field}}\<close> replaced by the field's value; a \<open>time.Time\<close> is printed by its
  \<open>String\<close> method.
\<close>

definition FailedTemplateText :: "'t lib \<Rightarrow> 't ReportingMTAInfo \<Rightarrow> string list" where
  "FailedTemplateText L info =
     [[CHR 0x0A] @ ''This is the mail delivery system at '',
      ReportingMTA info,
      ''.'' @ [CHR 0x0A, CHR 0x0A]
        @ ''Unfortunately, your message could not be delivered to one or more'' @ [CHR 0x0A]
        @ ''recipients. The usual cause of this problem is invalid'' @ [CHR 0x0A]
        @ ''recipient address or maintenance at the recipient side.'' @ [CHR 0x0A, CHR 0x0A]
        @ ''Contact the postmaster for further assistance, provide the Message ID (below):''
        @ [CHR 0x0A, CHR 0x0A]
        @ ''Message ID: '',
      XMessageID info,
      [CHR 0x0A] @ ''Arrival: '',
      time_String L (ArrivalDate info),
      [CHR 0x0A] @ ''Last delivery attempt: '',
      time_String L (LastAttemptDate info),
      [CHR 0x0A, CHR 0x0A]]"

text \<open>\<open>%v\<close> of a \<open>DiagnosticCode\<close>: \<open><nil>\<close> for nil, the text of \<open>Error()\<close> otherwise.\<close>

definition Sprint_diagnostic :: "'t lib \<Rightarrow> diagnostic \<Rightarrow> string" where
  "Sprint_diagnostic L d =
     (case d of
        DiagNil \<Rightarrow> ''<nil>''
      | SMTPError code enhanced message \<Rightarrow> SMTPError_Error L code enhanced message
      | OtherError text \<Rightarrow> text)"

definition humanHeader :: header where
  \<open>humanHeader =
     Add (Add (Add [] ''Content-Transfer-Encoding'' ''8bit'')
            ''Content-Type'' ''text/plain; charset="utf-8"'')
       ''Content-Description'' ''Notification''\<close>

definition writeHumanReadablePart ::
  "'t lib \<Rightarrow> 'w writer \<Rightarrow> 'w MultipartWriter \<Rightarrow> 't ReportingMTAInfo \<Rightarrow> RecipientInfo list
     \<Rightarrow> 'w MultipartWriter \<times> error option" where
  "writeHumanReadablePart L W w mtaInfo rcptsInfo =
     (case CreatePart L W w humanHeader of
        (humanWriter, Some err) \<Rightarrow> (humanWriter, Some err)
      | (humanWriter, None) \<Rightarrow>
          (let mtaInfo' = mtaInfo\<lparr>ArrivalDate := time_Truncate L (ArrivalDate mtaInfo),
                                   LastAttemptDate := time_Truncate L (LastAttemptDate mtaInfo)\<rparr>
           in case writeAll (part_Write W) humanWriter (FailedTemplateText L mtaInfo') of
                (humanWriter', Some err) \<Rightarrow> (humanWriter', Some err)
              | (humanWriter', None) \<Rightarrow>
                  writeAll (part_Write W) humanWriter'
                    (map (\<lambda>rcpt. ''Delivery to '' @ FinalRecipient rcpt @ '' failed with error: ''
                                  @ Sprint_diagnostic L (DiagnosticCode rcpt) @ [CHR 0x0A])
                       rcptsInfo)))"

definition machineHeader :: "bool \<Rightarrow> header" where
  "machineHeader utf8 =
     Add (if utf8 then Add [] ''Content-Type'' ''message/global-delivery-status''
          else Add [] ''Content-Type'' ''message/delivery-status'')
       ''Content-Description'' ''Delivery report''"

text \<open>The loop of \<open>writeMachineReadablePart\<close> over the recipients.\<close>

fun writeRecipients ::
  "'t lib \<Rightarrow> 'w writer \<Rightarrow> bool \<Rightarrow> 'w MultipartWriter \<Rightarrow> 't ReportingMTAInfo \<Rightarrow> RecipientInfo list
     \<Rightarrow> 'w MultipartWriter \<times> error option" where
  "writeRecipients L W utf8 machineWriter mtaInfo [] = (machineWriter, None)"
| "writeRecipients L W utf8 machineWriter mtaInfo (rcpt # rest) =
     (let mtaInfo' = (if XMTAName mtaInfo = [] then mtaInfo\<lparr>XMTAName := xMTADefaultName\<rparr>
                      else mtaInfo);
          rcpt' = rcpt\<lparr>xMTAName := XMTAName mtaInfo'\<rparr>
      in case RecipientInfo_WriteTo L (part_Write W) utf8 machineWriter rcpt' of
           (machineWriter', Some err) \<Rightarrow> (machineWriter', Some err)
         | (machineWriter', None) \<Rightarrow> writeRecipients L W utf8 machineWriter' mtaInfo' rest)"

definition writeMachineReadablePart ::
  "'t lib \<Rightarrow> 'w writer \<Rightarrow> bool \<Rightarrow> 'w MultipartWriter \<Rightarrow> 't ReportingMTAInfo \<Rightarrow> RecipientInfo list
     \<Rightarrow> 'w MultipartWriter \<times> error option" where
  "writeMachineReadablePart L W utf8 w mtaInfo rcptsInfo =
     (case CreatePart L W w (machineHeader utf8) of
        (machineWriter, Some err) \<Rightarrow> (machineWriter, Some err)
      | (machineWriter, None) \<Rightarrow>
          (case ReportingMTAInfo_WriteTo L (part_Write W) utf8 machineWriter mtaInfo of
             (machineWriter', Some err) \<Rightarrow> (machineWriter', Some err)
           | (machineWriter', None) \<Rightarrow>
               writeRecipients L W utf8 machineWriter' mtaInfo rcptsInfo))"

definition partHeader :: "bool \<Rightarrow> header" where
  "partHeader utf8 =
     Add (if utf8 then Add (Add [] ''Content-Description'' ''Undelivered message header'')
                         ''Content-Type'' ''message/global-headers''
          else Add (Add [] ''Content-Description'' ''Undelivered message header'')
                 ''Content-Type'' ''message/rfc822-headers'')
       ''Content-Transfer-Encoding'' ''8bit''"

definition writeHeader ::
  "'t lib \<Rightarrow> 'w writer \<Rightarrow> bool \<Rightarrow> 'w MultipartWriter \<Rightarrow> header
     \<Rightarrow> 'w MultipartWriter \<times> error option" where
  "writeHeader L W utf8 w hdr =
     (case CreatePart L W w (partHeader utf8) of
        (headerWriter, Some err) \<Rightarrow> (headerWriter, Some err)
      | (headerWriter, None) \<Rightarrow> WriteHeader L (part_Write W) headerWriter hdr)"

definition reportHeader :: "'t lib \<Rightarrow> Envelope \<Rightarrow> header" where
  "reportHeader L envelope =
     Add (Add (Add (Add (Add (Add (Add (Add (Add []
       ''Date'' (time_Format L (time_Now L)))
       ''Message-Id'' (MsgID envelope))
       ''Content-Transfer-Encoding'' ''8bit'')
       ''Content-Type''
         (''multipart/report; report-type=delivery-status; boundary='' @ randomBoundary L))
       ''MIME-Version'' ''1.0'')
       ''Auto-Submitted'' ''auto-replied'')
       ''To'' (To envelope))
       ''From'' (From envelope))
       ''Subject'' ''Undelivered Mail Returned to Sender''"

text \<open>
  \<open>GenerateDSN\<close> returns the header and the error; the third component is the state of
  \<open>outWriter\<close> when the call is over, the deferred \<open>partWriter.Close()\<close> included.
\<close>

definition GenerateDSN ::
  "'t lib \<Rightarrow> 'w writer \<Rightarrow> bool \<Rightarrow> Envelope \<Rightarrow> 't ReportingMTAInfo \<Rightarrow> RecipientInfo list
     \<Rightarrow> header \<Rightarrow> 'w \<Rightarrow> header \<times> error option \<times> 'w" where
  "GenerateDSN L W utf8 envelope mtaInfo rcptsInfo failedHeader outWriter =
     (let partWriter = NewMultipartWriter L outWriter;
          (hdr, err, partWriter') =
            (case writeHumanReadablePart L W partWriter mtaInfo rcptsInfo of
               (pw1, Some err) \<Rightarrow> ([], Some err, pw1)
             | (pw1, None) \<Rightarrow>
                 (case writeMachineReadablePart L W utf8 pw1 mtaInfo rcptsInfo of
                    (pw2, Some err) \<Rightarrow> ([], Some err, pw2)
                  | (pw2, None) \<Rightarrow>
                      (case writeHeader L W utf8 pw2 failedHeader of
                         (pw3, err) \<Rightarrow> (reportHeader L envelope, err, pw3))))
      in (hdr, err, mw_w (fst (MultipartWriter_Close W partWriter'))))"

section \<open>Relay dispatch (dsn.go)\<close>

text \<open>
  The SMTP session is the list of the events issued so far; each call appends its
  event, and the relay's answer to it is \<open>smtp_reply\<close> of the session.
\<close>

definition smtp_do :: "'t lib \<Rightarrow> smtp_event list \<Rightarrow> smtp_event \<Rightarrow> smtp_event list \<times> error option" where
  "smtp_do L c ev = (c @ [ev], smtp_reply L (c @ [ev]))"

definition wr_Write :: "'t lib \<Rightarrow> smtp_event list writer" where
  "wr_Write L c d = smtp_do L c (DataWrite d)"

text \<open>The loop of \<open>SendDSN\<close> over the recipients.\<close>

fun sendRcpts :: "'t lib \<Rightarrow> smtp_event list \<Rightarrow> RecipientInfo list \<Rightarrow> smtp_event list \<times> error option" where
  "sendRcpts L c [] = (c, None)"
| "sendRcpts L c (r # rest) =
     (case smtp_do L c (Rcpt (FinalRecipient r)) of
        (c', Some err) \<Rightarrow> (c', Some err)
      | (c', None) \<Rightarrow> sendRcpts L c' rest)"

text \<open>\<open>SendDSN\<close> from \<open>c.Hello\<close> on, that is, within the scope of the deferred \<open>c.Close()\<close>.\<close>

definition session ::
  "'t lib \<Rightarrow> smtp_event list \<Rightarrow> RecipientInfo list \<Rightarrow> header \<Rightarrow> string \<Rightarrow> smtp_event list \<times> error option" where
  "session L c rcptsInfo hdr bodyBuf =
     (case smtp_do L c (Hello ''bla'') of
        (c1, Some err) \<Rightarrow> (c1, Some err)
      | (c1, None) \<Rightarrow>
          (case smtp_do L c1 (Mail ''<>'') of
             (c2, Some err) \<Rightarrow> (c2, Some err)
           | (c2, None) \<Rightarrow>
               (case sendRcpts L c2 rcptsInfo of
                  (c3, Some err) \<Rightarrow> (c3, Some err)
                | (c3, None) \<Rightarrow>
                    (case smtp_do L c3 Data of
                       (wr, Some err) \<Rightarrow> (wr, Some err)
                     | (wr, None) \<Rightarrow>
                         (case WriteHeader L (wr_Write L) wr hdr of
                            (wr1, Some err) \<Rightarrow> (fst (smtp_do L wr1 DataClose), Some err)
                          | (wr1, None) \<Rightarrow>
                              (case (if bodyBuf = [] then (wr1, None) else wr_Write L wr1 bodyBuf) of
                                 (wr2, Some err) \<Rightarrow> (fst (smtp_do L wr2 DataClose), Some err)
                               | (wr2, None) \<Rightarrow> smtp_do L wr2 DataClose))))))"

definition SendDSN ::
  "'t lib \<Rightarrow> string \<Rightarrow> bool \<Rightarrow> Envelope \<Rightarrow> 't ReportingMTAInfo \<Rightarrow> RecipientInfo list \<Rightarrow> header
     \<Rightarrow> smtp_event list \<times> error option" where
  "SendDSN L smtpaddr utf8 envelope mtaInfo rcptsInfo failedHeader =
     (let envelope' = envelope\<lparr>From := ''MAILER-DAEMON (Mail Delivery System)''\<rparr> in
      case GenerateDSN L Buffer_Write utf8 envelope' mtaInfo rcptsInfo failedHeader [] of
        (hdr, Some err, bodyBuf) \<Rightarrow> ([], Some err)
      | (hdr, None, bodyBuf) \<Rightarrow>
          (case smtp_do L [] (Dial smtpaddr) of
             (c, Some err) \<Rightarrow> (c, Some err)
           | (c, None) \<Rightarrow>
               (case session L c rcptsInfo hdr bodyBuf of
                  (c', err) \<Rightarrow> (fst (smtp_do L c' Close), err))))"

section \<open>Field names, order and tags as the specification states them\<close>

text \<open>
  The effective label prefix \<open>X-<label>\<close>, the tag of an address field in each
  encoding mode, and the field order of the two blocks (sections 4.3 of the
  specification). The functions above do not use these definitions; the theorems
  compare them with what the functions build.
\<close>

definition xHeaderPrefix_of :: "'t lib \<Rightarrow> string \<Rightarrow> string" where
  "xHeaderPrefix_of L name = ''X-'' @ strings_TrimSpace L (if name = [] then xMTADefaultName else name)"

definition tag :: "bool \<Rightarrow> string" where
  "tag utf8 = (if utf8 then ''utf8; '' else ''rfc822; '')"



section \<open>The bytes of a report, part by part\<close>

text \<open>
  Names for the pieces of output that the theorems about \<open>GenerateDSN\<close> speak of: the
  lines of a header's fields in the order in which \<open>WriteHeader\<close> writes them (the
  field added last comes first), the boundary line and header that open a part, the
  body of the human-readable part (the chunks written, and their concatenation), the
  bytes of one field block, and the closing boundary line. \<open>validHeader\<close> holds of a
  header all of whose fields \<open>WriteHeader\<close> accepts. \<open>effectiveLabel\<close> is the
  label that \<open>writeMachineReadablePart\<close> hands to every recipient.
\<close>

definition textproto_fields :: "'t lib \<Rightarrow> header \<Rightarrow> string list" where
  "textproto_fields L h = map (\<lambda>(k, v). formatHeaderField L k v) (rev h)"

definition validHeader :: "header \<Rightarrow> bool" where
  "validHeader h = list_all (\<lambda>(k, v). validFieldName k \<and> validFieldValue v) h"

definition partStart :: "'t lib \<Rightarrow> bool \<Rightarrow> header \<Rightarrow> string" where
  "partStart L first hdr =
     (if first then [] else CRLF) @ ''--'' @ randomBoundary L @ CRLF
     @ concat (textproto_fields L hdr) @ CRLF"

definition humanChunks :: "'t lib \<Rightarrow> 't ReportingMTAInfo \<Rightarrow> RecipientInfo list \<Rightarrow> string list" where
  "humanChunks L mtaInfo rcptsInfo =
     FailedTemplateText L
       (mtaInfo\<lparr>ArrivalDate := time_Truncate L (ArrivalDate mtaInfo),
                LastAttemptDate := time_Truncate L (LastAttemptDate mtaInfo)\<rparr>)
     @ map (\<lambda>rcpt. ''Delivery to '' @ FinalRecipient rcpt @ '' failed with error: ''
                    @ Sprint_diagnostic L (DiagnosticCode rcpt) @ [CHR 0x0A])
         rcptsInfo"

definition humanBody :: "'t lib \<Rightarrow> 't ReportingMTAInfo \<Rightarrow> RecipientInfo list \<Rightarrow> string" where
  "humanBody L mtaInfo rcptsInfo = concat (humanChunks L mtaInfo rcptsInfo)"

definition block :: "'t lib \<Rightarrow> header \<Rightarrow> string" where
  "block L h = concat (textproto_fields L h) @ CRLF"

definition closing :: "'t lib \<Rightarrow> string" where
  "closing L = CRLF @ ''--'' @ randomBoundary L @ ''--'' @ CRLF"

definition effectiveLabel :: "'t ReportingMTAInfo \<Rightarrow> string" where
  "effectiveLabel mtaInfo = (if XMTAName mtaInfo = [] then xMTADefaultName else XMTAName mtaInfo)"

text \<open>
  A sink accepts every write when its \<open>Write\<close> never returns an error; \<open>written\<close> is
  its state after the given chunks have been written in order.
\<close>

definition accepts :: "'w writer \<Rightarrow> bool" where
  "accepts W = (\<forall>w d. snd (W w d) = None)"

definition written :: "'w writer \<Rightarrow> 'w \<Rightarrow> string list \<Rightarrow> 'w" where
  "written W w ds = foldl (\<lambda>w d. fst (W w d)) w ds"

text \<open>An SMTP event that is not a \<open>MAIL\<close> command with a sender other than \<open><>\<close>.\<close>

definition nullSender :: "smtp_event \<Rightarrow> bool" where
  "nullSender ev = (case ev of Mail from \<Rightarrow> from = ''<>'' | _ \<Rightarrow> True)"

section \<open>A sample of the collaborators\<close>

text \<open>
  One instance of the parameters, used to evaluate the functions at concrete inputs:
  conversions that leave a domain as it is and reject one that contains a space,
  times as seconds with 0 the zero time,
  a header field written as the line \<open>key: value\<close> (the name as it was passed to
  \<open>Add\<close>, the value not folded), one error text for every field that the header
  writer refuses, a relay that accepts everything, and an SMTP error whose text is
  its message.
\<close>

definition sample :: "nat lib" where
  "sample = \<lparr>
     idna_ToASCII = (\<lambda>d. (d, if CHR '' '' \<in> set d then Some (ErrExternal ''idna: disallowed rune'') else None)),
     idna_ToUnicode = (\<lambda>d. (d, if CHR '' '' \<in> set d then Some (ErrExternal ''idna: disallowed rune'') else None)),
     norm_NFC = (\<lambda>s. s),
     unicode_fold = (\<lambda>a b. False),
     strings_TrimSpace = (\<lambda>s. s),
     time_IsZero = (\<lambda>t. t = 0),
     time_Format = (\<lambda>t. ''t'' @ digits t),
     time_Truncate = (\<lambda>t. t),
     time_String = (\<lambda>t. ''t'' @ digits t),
     time_Now = 1,
     randomBoundary = ''B'',
     formatHeaderField = (\<lambda>k v. k @ '': '' @ v @ CRLF),
     textproto_fieldError = (\<lambda>n k v. ErrExternal (''textproto: failed to write header field '' @ k)),
     smtp_reply = (\<lambda>c. None),
     SMTPError_Error = (\<lambda>code enhanced message. message)\<rparr>"

text \<open>
  The input of the repository's test \<open>TestGenerateDSN\<close> (times as seconds), and a
  recipient with the structured SMTP diagnostic of the specification's example.
\<close>

definition mtaInfo1 :: "nat ReportingMTAInfo" where
  "mtaInfo1 = \<lparr>ReportingMTA = ''reportingmta.example.com'',
     ReceivedFromMTA = ''receivedmta.example.com'', XMTAName = [],
     XSender = ''XSender@example.com'', XMessageID = ''XMessageID'',
     ArrivalDate = 5, LastAttemptDate = 7\<rparr>"

definition rcpt1 :: RecipientInfo where
  "rcpt1 = \<lparr>FinalRecipient = ''finalrcpt@example.com'', RemoteMTA = ''remotemta.example.com'',
     Action = ''delivered'', Status = (2, 0, 0), DiagnosticCode = DiagNil, xMTAName = []\<rparr>"

definition rcpt2 :: RecipientInfo where
  "rcpt2 = \<lparr>FinalRecipient = ''finalrcpt@example.com'', RemoteMTA = [],
     Action = ''failed'', Status = (5, 1, 1),
     DiagnosticCode = SMTPError 550 (5, 1, 1) (''Mailbox not found'' @ [CHR 0x0D, CHR 0x0A] @ ''Try again''),
     xMTAName = []\<rparr>"

text \<open>A sink that is full: every \<open>Write\<close> fails and leaves it as it is.\<close>

definition fullSink :: "string writer" where
  "fullSink b d = (b, Some (ErrExternal ''sink: no space left''))"

definition envelope1 :: Envelope where
  "envelope1 = \<lparr>MsgID = ''msgid1'', From = ''from@example.com'', To = ''to@example.com''\<rparr>"

section \<open>Evaluating the sample\<close>

lemma sample_fields:
  "idna_ToASCII sample = (\<lambda>d. (d, if CHR '' '' \<in> set d then Some (ErrExternal ''idna: disallowed rune'') else None))"
  "idna_ToUnicode sample = (\<lambda>d. (d, if CHR '' '' \<in> set d then Some (ErrExternal ''idna: disallowed rune'') else None))"
  "norm_NFC sample = (\<lambda>s. s)"
  "unicode_fold sample = (\<lambda>a b. False)"
  "strings_TrimSpace sample = (\<lambda>s. s)"
  "time_IsZero sample = (\<lambda>t. t = 0)"
  "time_Format sample = (\<lambda>t. ''t'' @ digits t)"
  "time_Truncate sample = (\<lambda>t. t)"
  "time_String sample = (\<lambda>t. ''t'' @ digits t)"
  "time_Now sample = 1"
  "randomBoundary sample = ''B''"
  "formatHeaderField sample = (\<lambda>k v. k @ '': '' @ v @ CRLF)"
  "textproto_fieldError sample = (\<lambda>n k v. ErrExternal (''textproto: failed to write header field '' @ k))"
  "smtp_reply sample = (\<lambda>c. None)"
  "SMTPError_Error sample = (\<lambda>code enhanced message. message)"
  by (simp_all add: sample_def)

lemma digits_small: "n < 10 \<Longrightarrow> digits n = [''0123456789'' ! n]"
  by (simp add: digits.simps)

lemma digits_550: "digits 550 = ''550''"
  by (simp add: digits.simps[of 550] digits.simps[of 55] digits.simps[of 5])

lemmas eval_simps = sample_fields dnsSelectIDNA_def addrSelectIDNA_def toASCII_def toUnicode_def
  split_def EqualFold_def foldEq_def Add_def xMTADefaultName_def digits_small Itoa_def digits_550
  Sprintf_code_def newLineReplacer_def

lemma mtaInfo1_header: "ReportingMTAInfo_header sample utf8 mtaInfo1 = Inr
  [(''Reporting-MTA'', ''dns; reportingmta.example.com''),
   (''Received-From-MTA'', ''dns; receivedmta.example.com''),
   (''X-Godsn-Sender'', tag utf8 @ ''XSender@example.com''),
   (''X-Godsn-MsgID'', ''XMessageID''),
   (''Arrival-Date'', ''t5''), (''Last-Attempt-Date'', ''t7'')]"
  by (simp add: ReportingMTAInfo_header_def mtaInfo1_def tag_def eval_simps)

lemma rcpt1_header: "RecipientInfo_header sample False rcpt1 = Inr
  [(''Final-Recipient'', ''rfc822; finalrcpt@example.com''),
   (''Action'', ''delivered''), (''Status'', ''2.0.0''),
   (''Remote-MTA'', ''dns; remotemta.example.com'')]"
  by (simp add: RecipientInfo_header_def rcpt1_def eval_simps)

lemma rcpt2_header: "RecipientInfo_header sample utf8 rcpt2 = Inr
  [(''Final-Recipient'', tag utf8 @ ''finalrcpt@example.com''),
   (''Action'', ''failed''), (''Status'', ''5.1.1''),
   (''Diagnostic-Code'', ''smtp; 550 5.1.1 Mailbox not found  Try again'')]"
  by (simp add: RecipientInfo_header_def rcpt2_def tag_def eval_simps)

section \<open>Properties of split\<close>

lemma LastIndexByte_None: "LastIndexByte s b = None \<longleftrightarrow> b \<notin> set s"
  by (induction s) (auto split: option.splits)

lemma LastIndexByte_last: "b \<notin> set d \<Longrightarrow> LastIndexByte (l @ b # d) b = Some (length l)"
  by (induction l) (auto simp: LastIndexByte_None split: option.splits)

lemma split_at:
  assumes "\<not> EqualFold L (l @ CHR ''@'' # d) ''postmaster''" and "CHR ''@'' \<notin> set d"
  shows "split L (l @ CHR ''@'' # d) =
           (if l = [] then Inl (ErrorNew ''address: empty local-part'')
            else if d = [] then Inl (ErrorNew ''address: empty domain'')
            else Inr (l, d))"
proof -
  have "LastIndexByte (l @ CHR ''@'' # d) (CHR ''@'') = Some (length l)"
    using assms(2) by (rule LastIndexByte_last)
  then have "split L (l @ CHR ''@'' # d) =
      (let mailbox = take (length l) (l @ CHR ''@'' # d);
           domain = drop (length l + 1) (l @ CHR ''@'' # d)
       in if mailbox = [] then Inl (ErrorNew ''address: empty local-part'')
          else if domain = [] then Inl (ErrorNew ''address: empty domain'')
          else Inr (mailbox, domain))"
    using assms(1) unfolding split_def by simp
  then show ?thesis by (simp add: Let_def)
qed

text \<open>
  C7. \<open>split\<close> returns the input as local-part with an empty domain exactly when the
  input equals \<open>postmaster\<close> under \<open>strings.EqualFold\<close> (case-insensitively). Any other
  input without an at-sign fails, and an input that its last at-sign cuts into \<open>l\<close>
  and \<open>d\<close> fails when \<open>l\<close> or \<open>d\<close> is empty and yields \<open>(l, d)\<close> otherwise. In particular \<open>user@\<close> and
  \<open>@domain\<close> fail, and \<open>postmaster\<close> and \<open>Postmaster\<close> succeed with an empty domain.
\<close>

theorem split_spec:
  "(EqualFold L addr ''postmaster'' \<longrightarrow> split L addr = Inr (addr, []))
   \<and> ((\<exists>m. split L addr = Inr (m, [])) \<longleftrightarrow> EqualFold L addr ''postmaster'')
   \<and> (\<not> EqualFold L addr ''postmaster'' \<and> CHR ''@'' \<notin> set addr
        \<longrightarrow> split L addr = Inl (ErrorNew ''address: missing at-sign''))
   \<and> (\<not> EqualFold L addr ''postmaster'' \<and> addr = l @ CHR ''@'' # d \<and> CHR ''@'' \<notin> set d
        \<longrightarrow> split L addr =
             (if l = [] then Inl (ErrorNew ''address: empty local-part'')
              else if d = [] then Inl (ErrorNew ''address: empty domain'')
              else Inr (l, d)))
   \<and> split L ''user@'' = Inl (ErrorNew ''address: empty domain'')
   \<and> split L ''@domain'' = Inl (ErrorNew ''address: empty local-part'')
   \<and> split L ''postmaster'' = Inr (''postmaster'', [])
   \<and> split L ''Postmaster'' = Inr (''Postmaster'', [])"
proof (intro conjI impI)
  show "split L ''user@'' = Inl (ErrorNew ''address: empty domain'')"
    by (simp add: split_def EqualFold_def foldEq_def)
  show "split L ''@domain'' = Inl (ErrorNew ''address: empty local-part'')"
    by (simp add: split_def EqualFold_def foldEq_def)
  show "split L ''postmaster'' = Inr (''postmaster'', [])"
    by (simp add: split_def EqualFold_def foldEq_def)
  show "split L ''Postmaster'' = Inr (''Postmaster'', [])"
    by (simp add: split_def EqualFold_def foldEq_def)
next
  assume "EqualFold L addr ''postmaster''"
  then show "split L addr = Inr (addr, [])" by (simp add: split_def)
next
  show "(\<exists>m. split L addr = Inr (m, [])) \<longleftrightarrow> EqualFold L addr ''postmaster''"
    unfolding split_def by (simp add: Let_def split: option.split)
next
  assume "\<not> EqualFold L addr ''postmaster'' \<and> CHR ''@'' \<notin> set addr"
  then show "split L addr = Inl (ErrorNew ''address: missing at-sign'')"
    using LastIndexByte_None[of addr "CHR ''@''"] by (simp add: split_def)
next
  assume a: "\<not> EqualFold L addr ''postmaster'' \<and> addr = l @ CHR ''@'' # d \<and> CHR ''@'' \<notin> set d"
  then have "\<not> EqualFold L (l @ CHR ''@'' # d) ''postmaster''" and "CHR ''@'' \<notin> set d"
    by auto
  from split_at[OF this] a
  show "split L addr =
             (if l = [] then Inl (ErrorNew ''address: empty local-part'')
              else if d = [] then Inl (ErrorNew ''address: empty domain'')
              else Inr (l, d))"
    by simp
qed

theorem split_spec_witness:
  "\<not> EqualFold sample ''a@b@c'' ''postmaster'' \<and> ''a@b@c'' = ''a@b'' @ CHR ''@'' # ''c''
   \<and> CHR ''@'' \<notin> set ''c'' \<and> split sample ''a@b@c'' = Inr (''a@b'', ''c'')
   \<and> EqualFold sample ''POSTmaster'' ''postmaster''
   \<and> split sample ''POSTmaster'' = Inr (''POSTmaster'', [])
   \<and> \<not> EqualFold sample ''nobody'' ''postmaster'' \<and> CHR ''@'' \<notin> set ''nobody''
   \<and> split sample ''nobody'' = Inl (ErrorNew ''address: missing at-sign'')"
proof -
  have h1: "\<not> EqualFold sample ''a@b@c'' ''postmaster''"
    by (simp add: EqualFold_def foldEq_def)
  have h4: "EqualFold sample ''POSTmaster'' ''postmaster''"
    by (simp add: EqualFold_def foldEq_def)
  have h5: "\<not> EqualFold sample ''nobody'' ''postmaster''"
    by (simp add: EqualFold_def foldEq_def)
  have r1: "split sample ''a@b@c'' = Inr (''a@b'', ''c'')"
    using split_spec[of sample "''a@b@c''" "''a@b''" "''c''"] h1 by simp
  have r2: "split sample ''POSTmaster'' = Inr (''POSTmaster'', [])"
    using split_spec[of sample "''POSTmaster''" "[]" "[]"] h4 by simp
  have r3: "split sample ''nobody'' = Inl (ErrorNew ''address: missing at-sign'')"
    using split_spec[of sample "''nobody''" "[]" "[]"] h5 by simp
  from h1 h4 h5 r1 r2 r3 show ?thesis by simp
qed

section \<open>Properties of toUnicode and toASCII\<close>

text \<open>
  C9. Whenever \<open>toUnicode\<close> returns an error, the string it returns with it is the NFC
  normalisation of the original address; it returns an error exactly when \<open>split\<close>
  fails or the domain is not empty and \<open>idna.ToUnicode\<close> fails on it. On success the
  local-part is passed through unchanged, followed (when there is a domain) by the
  at-sign and the NFC normalisation of the domain's U-label form.
\<close>

theorem toUnicode_spec:
  "(snd (toUnicode L addr) \<noteq> None \<longrightarrow> fst (toUnicode L addr) = norm_NFC L addr)
   \<and> (snd (toUnicode L addr) \<noteq> None \<longleftrightarrow>
        (case split L addr of
           Inl err \<Rightarrow> True
         | Inr (mbox, domain) \<Rightarrow> domain \<noteq> [] \<and> snd (idna_ToUnicode L domain) \<noteq> None))
   \<and> (split L addr = Inr (mbox, domain) \<and> snd (toUnicode L addr) = None \<longrightarrow>
        fst (toUnicode L addr) =
          (if domain = [] then mbox
           else mbox @ ''@'' @ norm_NFC L (fst (idna_ToUnicode L domain))))"
  unfolding toUnicode_def
  by (cases "split L addr"; cases "idna_ToUnicode L domain"; 
      auto split: prod.splits option.splits)

theorem toUnicode_spec_witness:
  "split sample ''user@example.com'' = Inr (''user'', ''example.com'')
   \<and> toUnicode sample ''user@example.com'' = (''user@example.com'', None)
   \<and> toUnicode sample ''user@exa mple.com'' 
       = (norm_NFC sample ''user@exa mple.com'', Some (ErrExternal ''idna: disallowed rune''))
   \<and> toUnicode sample ''nobody''
       = (norm_NFC sample ''nobody'', Some (ErrorNew ''address: missing at-sign''))"
proof -
  have s1: "split sample ''user@example.com'' = Inr (''user'', ''example.com'')"
    by (simp add: split_def EqualFold_def foldEq_def)
  have e1: "snd (toUnicode sample ''user@example.com'') = None"
    by (simp add: toUnicode_def s1 sample_fields)
  have r1: "fst (toUnicode sample ''user@example.com'') = ''user@example.com''"
    using toUnicode_spec[of sample "''user@example.com''" "''user''" "''example.com''"] s1 e1
    by (simp add: sample_fields)
  have s2: "split sample ''user@exa mple.com'' = Inr (''user'', ''exa mple.com'')"
    by (simp add: split_def EqualFold_def foldEq_def)
  have e2: "snd (toUnicode sample ''user@exa mple.com'') = Some (ErrExternal ''idna: disallowed rune'')"
    by (simp add: toUnicode_def s2 sample_fields)
  have r2: "fst (toUnicode sample ''user@exa mple.com'') = norm_NFC sample ''user@exa mple.com''"
    using toUnicode_spec[of sample "''user@exa mple.com''" "[]" "[]"] e2 by simp
  have s3: "split sample ''nobody'' = Inl (ErrorNew ''address: missing at-sign'')"
    by (simp add: split_def EqualFold_def foldEq_def)
  have e3: "snd (toUnicode sample ''nobody'') = Some (ErrorNew ''address: missing at-sign'')"
    by (simp add: toUnicode_def s3)
  have r3: "fst (toUnicode sample ''nobody'') = norm_NFC sample ''nobody''"
    using toUnicode_spec[of sample "''nobody''" "[]" "[]"] e3 by simp
  show ?thesis
    using s1 e1 r1 e2 r2 e3 r3 by (simp add: prod_eq_iff)
qed

text \<open>
  What \<open>toASCII\<close> does once \<open>split\<close> has succeeded: a rune above 128 in the
  local-part gives \<open>ErrUnicodeMailbox\<close> with the original address, whatever the
  collaborators are (the domain is not looked at); otherwise an empty domain gives the
  local-part, and a domain goes through \<open>idna.ToASCII\<close>.
\<close>

lemma toASCII_after_split:
  assumes "split L addr = Inr (mbox, domain)"
  shows "toASCII L addr =
    (if \<exists>ch \<in> set (runes mbox). ch > 128 then (addr, Some ErrUnicodeMailbox)
     else if domain = [] then (mbox, None)
     else (case idna_ToASCII L domain of
             (aDomain, Some err) \<Rightarrow> (addr, Some err)
           | (aDomain, None) \<Rightarrow> (mbox @ ''@'' @ aDomain, None)))"
  using assms by (simp add: toASCII_def list_ex_iff)

text \<open>
  The specification's example: the local-part of the address u-umlaut \<open>ser@example.com\<close>
  starts with the bytes C3 BC, the rune 252, and \<open>toASCII\<close> fails whatever the
  collaborators are.
\<close>

lemma toASCII_uuml:
  "toASCII L ([CHR 0xC3, CHR 0xBC] @ ''ser@example.com'')
     = ([CHR 0xC3, CHR 0xBC] @ ''ser@example.com'', Some ErrUnicodeMailbox)"
proof -
  have s: "split L ([CHR 0xC3, CHR 0xBC] @ ''ser@example.com'')
             = Inr ([CHR 0xC3, CHR 0xBC] @ ''ser'', ''example.com'')"
    by (simp add: split_def EqualFold_def foldEq_def cont_def)
  show ?thesis
    unfolding toASCII_after_split[OF s] by (simp add: cont_def)
qed

lemma runes_C2_80: "runes [CHR 0xC2, CHR 0x80] = [128]"
  by (simp add: cont_def)

lemma split_C2_80:
  "split L ([CHR 0xC2, CHR 0x80] @ ''@example.com'') = Inr ([CHR 0xC2, CHR 0x80], ''example.com'')"
  by (simp add: split_def EqualFold_def foldEq_def cont_def)

lemma toASCII_C2_80:
  "toASCII L ([CHR 0xC2, CHR 0x80] @ ''@example.com'') =
       (case idna_ToASCII L ''example.com'' of
          (aDomain, Some err) \<Rightarrow> ([CHR 0xC2, CHR 0x80] @ ''@example.com'', Some err)
        | (aDomain, None) \<Rightarrow> ([CHR 0xC2, CHR 0x80] @ ''@'' @ aDomain, None))"
  unfolding toASCII_def split_C2_80
  by (simp add: cont_def split: prod.split option.split)

text \<open>
  C3. The local-part check of \<open>toASCII\<close> compares each rune with 128, not 127. At the
  address whose local-part is the single character U+0080 (bytes C2 80) and whose
  domain is \<open>example.com\<close>, the check passes and the domain is handed to
  \<open>idna.ToASCII\<close>; with the sample collaborators the call succeeds.
\<close>

theorem toASCII_U0080:
  "runes [CHR 0xC2, CHR 0x80] = [128]
   \<and> toASCII L ([CHR 0xC2, CHR 0x80] @ ''@example.com'') =
       (case idna_ToASCII L ''example.com'' of
          (aDomain, Some err) \<Rightarrow> ([CHR 0xC2, CHR 0x80] @ ''@example.com'', Some err)
        | (aDomain, None) \<Rightarrow> ([CHR 0xC2, CHR 0x80] @ ''@'' @ aDomain, None))
   \<and> toASCII sample ([CHR 0xC2, CHR 0x80] @ ''@example.com'') =
       ([CHR 0xC2, CHR 0x80] @ ''@example.com'', None)"
proof (intro conjI)
  show "runes [CHR 0xC2, CHR 0x80] = [128]" by (rule runes_C2_80)
  show "toASCII L ([CHR 0xC2, CHR 0x80] @ ''@example.com'') =
       (case idna_ToASCII L ''example.com'' of
          (aDomain, Some err) \<Rightarrow> ([CHR 0xC2, CHR 0x80] @ ''@example.com'', Some err)
        | (aDomain, None) \<Rightarrow> ([CHR 0xC2, CHR 0x80] @ ''@'' @ aDomain, None))"
    by (rule toASCII_C2_80)
  show "toASCII sample ([CHR 0xC2, CHR 0x80] @ ''@example.com'') =
       ([CHR 0xC2, CHR 0x80] @ ''@example.com'', None)"
    unfolding toASCII_C2_80 by (simp add: sample_fields)
qed

section \<open>Properties of the writers\<close>

text \<open>
  On a sink that accepts every write, each writing function succeeds, and the sink
  ends in the state \<open>written\<close> of the chunks; on an in-memory buffer that state is
  the old contents followed by the chunks.
\<close>

lemma accepts_Buffer: "accepts Buffer_Write"
  by (simp add: accepts_def Buffer_Write_def)

lemma written_Buffer: "written Buffer_Write w ds = w @ concat ds"
  by (induction ds arbitrary: w) (simp_all add: written_def Buffer_Write_def)

lemma written_Cons: "written W w (d # ds) = written W (fst (W w d)) ds"
  by (simp add: written_def)

lemma written_snoc: "written W w (ds @ [d]) = fst (W (written W w ds) d)"
  by (simp add: written_def)

lemma accepts_W:
  assumes "accepts W"
  shows "\<exists>w'. W w d = (w', None)"
proof -
  from assms have "snd (W w d) = None" by (simp add: accepts_def)
  then show ?thesis by (cases "W w d") simp
qed

lemma writeAll_accepts: "accepts W \<Longrightarrow> writeAll W w ds = (written W w ds, None)"
proof (induction ds arbitrary: w)
  case Nil
  show ?case by (simp add: written_def)
next
  case (Cons d ds)
  from accepts_W[OF Cons.prems] obtain w' where w': "W w d = (w', None)" by blast
  from Cons.IH[OF Cons.prems, of w'] w'
  show ?case by (simp add: written_def)
qed

lemma part_Write_accepts:
  assumes "accepts W"
  shows "part_Write W \<lparr>mw_w = w, mw_boundary = b, mw_lastpart = lp\<rparr> d =
     (\<lparr>mw_w = fst (W w d), mw_boundary = b, mw_lastpart = lp\<rparr>, None)"
proof -
  from accepts_W[OF assms] obtain w' where "W w d = (w', None)" by blast
  then show ?thesis by (simp add: part_Write_def)
qed

lemma accepts_part: "accepts W \<Longrightarrow> accepts (part_Write W)"
  unfolding accepts_def part_Write_def
  by (auto split: prod.splits option.splits) (metis snd_conv option.distinct(1))

lemma written_part:
  "accepts W \<Longrightarrow> written (part_Write W) \<lparr>mw_w = w, mw_boundary = b, mw_lastpart = lp\<rparr> ds =
     \<lparr>mw_w = written W w ds, mw_boundary = b, mw_lastpart = lp\<rparr>"
proof (induction ds arbitrary: w)
  case Nil
  show ?case by (simp add: written_def)
next
  case (Cons d ds)
  from part_Write_accepts[OF Cons.prems, of w b lp d] Cons.IH[OF Cons.prems, of "fst (W w d)"]
  show ?case by (simp add: written_Cons)
qed

lemma writeAll_part_accepts:
  "accepts W \<Longrightarrow> writeAll (part_Write W) \<lparr>mw_w = w, mw_boundary = b, mw_lastpart = lp\<rparr> ds =
     (\<lparr>mw_w = written W w ds, mw_boundary = b, mw_lastpart = lp\<rparr>, None)"
  by (simp add: writeAll_accepts[OF accepts_part] written_part)

text \<open>
  \<open>WriteHeader\<close> returns without an error only if it accepts every field, and then the
  sink has received the lines of the fields, last added first, and the empty line. On
  a header that it accepts it fails only with an error of the sink; on a sink that
  accepts every write it fails exactly on the headers with a field it refuses.
\<close>

lemma validHeader_rev: "validHeader (rev h) = validHeader h"
  by (simp add: validHeader_def)

lemma writeFields_None:
  "writeFields L W w n fs = (w', None) \<Longrightarrow>
     validHeader fs \<and> w' = written W w (map (\<lambda>(k, v). formatHeaderField L k v) fs)"
proof (induction fs arbitrary: w n)
  case Nil
  then show ?case by (simp add: validHeader_def written_def)
next
  case (Cons f fs)
  obtain k v where f: "f = (k, v)" by (cases f)
  obtain w1 e1 where w1: "W w (formatHeaderField L k v) = (w1, e1)"
    by (cases "W w (formatHeaderField L k v)")
  from Cons.prems f w1 have ok: "validFieldName k \<and> validFieldValue v" and e1: "e1 = None"
    and r: "writeFields L W w1 (Suc n) fs = (w', None)"
    by (auto split: if_splits option.splits)
  from Cons.IH[OF r] ok f w1 show ?case
    by (simp add: validHeader_def written_Cons)
qed

lemma writeFields_accepts:
  assumes "accepts W"
  shows "validHeader fs \<Longrightarrow>
     writeFields L W w n fs = (written W w (map (\<lambda>(k, v). formatHeaderField L k v) fs), None)"
proof (induction fs arbitrary: w n)
  case Nil
  show ?case by (simp add: written_def)
next
  case (Cons f fs)
  obtain k v where f: "f = (k, v)" by (cases f)
  from accepts_W[OF assms] obtain w1 where w1: "W w (formatHeaderField L k v) = (w1, None)" by blast
  from Cons.prems f have ok: "validFieldName k \<and> validFieldValue v" and r: "validHeader fs"
    by (simp_all add: validHeader_def)
  from Cons.IH[OF r, of w1 "Suc n"] ok f w1 show ?case
    by (simp add: written_Cons)
qed

lemma writeFields_sink_error:
  "validHeader fs \<Longrightarrow> writeFields L W w n fs = (w', Some e) \<Longrightarrow> \<exists>w0 d. W w0 d = (w', Some e)"
proof (induction fs arbitrary: w n)
  case Nil
  then show ?case by simp
next
  case (Cons f fs)
  obtain k v where f: "f = (k, v)" by (cases f)
  obtain w1 e1 where w1: "W w (formatHeaderField L k v) = (w1, e1)"
    by (cases "W w (formatHeaderField L k v)")
  from Cons.prems(1) f have ok: "validFieldName k \<and> validFieldValue v" and r: "validHeader fs"
    by (simp_all add: validHeader_def)
  show ?case
  proof (cases e1)
    case None
    with Cons.prems(2) f ok w1 have "writeFields L W w1 (Suc n) fs = (w', Some e)" by simp
    from Cons.IH[OF r this] show ?thesis .
  next
    case (Some e')
    with Cons.prems(2) f ok w1 have "W w (formatHeaderField L k v) = (w', Some e)" by simp
    then show ?thesis by blast
  qed
qed

lemma WriteHeader_None:
  assumes "WriteHeader L W w h = (w', None)"
  shows "validHeader h \<and> w' = written W w (textproto_fields L h @ [CRLF])"
proof -
  obtain w1 e1 where w1: "writeFields L W w 1 (rev h) = (w1, e1)"
    by (cases "writeFields L W w 1 (rev h)")
  from assms w1 have e1: "e1 = None" and c: "W w1 CRLF = (w', None)"
    by (auto simp: WriteHeader_def split: option.splits)
  from writeFields_None[of L W w 1 "rev h" w1] w1 e1
  have "validHeader h" and "w1 = written W w (textproto_fields L h)"
    by (simp_all add: validHeader_rev textproto_fields_def)
  with c show ?thesis by (simp add: written_snoc)
qed

lemma WriteHeader_invalid: "\<not> validHeader h \<Longrightarrow> snd (WriteHeader L W w h) \<noteq> None"
  using WriteHeader_None[of L W w h "fst (WriteHeader L W w h)"]
  by (cases "WriteHeader L W w h") auto

lemma WriteHeader_accepts:
  assumes "accepts W" and "validHeader h"
  shows "WriteHeader L W w h = (written W w (textproto_fields L h @ [CRLF]), None)"
proof -
  from assms(2) have "validHeader (rev h)" by (simp add: validHeader_rev)
  from writeFields_accepts[OF assms(1) this, of L w 1]
  have f: "writeFields L W w 1 (rev h) = (written W w (textproto_fields L h), None)"
    by (simp add: textproto_fields_def)
  from accepts_W[OF assms(1)] obtain w' where
    "W (written W w (textproto_fields L h)) CRLF = (w', None)" by blast
  with f show ?thesis by (simp add: WriteHeader_def written_snoc)
qed

lemma WriteHeader_sink_error:
  assumes "validHeader h" and "WriteHeader L W w h = (w', Some e)"
  shows "\<exists>w0 d. W w0 d = (w', Some e)"
proof -
  obtain w1 e1 where w1: "writeFields L W w 1 (rev h) = (w1, e1)"
    by (cases "writeFields L W w 1 (rev h)")
  from assms(1) have v: "validHeader (rev h)" by (simp add: validHeader_rev)
  show ?thesis
  proof (cases e1)
    case None
    with assms(2) w1 have "W w1 CRLF = (w', Some e)" by (simp add: WriteHeader_def)
    then show ?thesis by blast
  next
    case (Some e')
    with assms(2) w1 have "writeFields L W w 1 (rev h) = (w', Some e)" by (simp add: WriteHeader_def)
    from writeFields_sink_error[OF v this] show ?thesis .
  qed
qed

lemma WriteHeader_Buffer: "validHeader h \<Longrightarrow> WriteHeader L Buffer_Write w h = (w @ block L h, None)"
  by (simp add: WriteHeader_accepts[OF accepts_Buffer] written_Buffer block_def)

lemma WriteHeader_part_accepts:
  assumes "accepts W" and "validHeader h"
  shows "WriteHeader L (part_Write W) \<lparr>mw_w = w, mw_boundary = b, mw_lastpart = lp\<rparr> h =
     (\<lparr>mw_w = written W w (textproto_fields L h @ [CRLF]), mw_boundary = b, mw_lastpart = lp\<rparr>, None)"
  by (simp only: WriteHeader_accepts[OF accepts_part[OF assms(1)] assms(2)] written_part[OF assms(1)])

text \<open>The three part headers of a report are headers that \<open>WriteHeader\<close> accepts.\<close>

lemma validHeader_parts:
  "validHeader humanHeader" "validHeader (machineHeader utf8)" "validHeader (partHeader utf8)"
  by (simp_all add: validHeader_def validFieldName_def validFieldValue_def humanHeader_def
        machineHeader_def partHeader_def Add_def)

lemma CreatePart_accepts:
  assumes "accepts W" and "lp = None \<or> lp = Some None" and "validHeader h"
  shows "CreatePart L W \<lparr>mw_w = w, mw_boundary = randomBoundary L, mw_lastpart = lp\<rparr> h =
    (\<lparr>mw_w = written W w [partStart L (lp = None) h], mw_boundary = randomBoundary L,
      mw_lastpart = Some None\<rparr>, None)"
proof -
  have "W w d = (written W w [d], None)" for d
    using accepts_W[OF assms(1), of w d] by (auto simp: written_def)
  with assms(2) show ?thesis
    by (auto simp: CreatePart_def Let_def partStart_def WriteHeader_Buffer[OF assms(3)] block_def)
qed

lemma Close_accepts:
  assumes "accepts W" and "lp = None \<or> lp = Some None"
  shows "mw_w (fst (MultipartWriter_Close W
                      \<lparr>mw_w = w, mw_boundary = randomBoundary L, mw_lastpart = lp\<rparr>)) =
           written W w [closing L]"
proof -
  have "W w d = (written W w [d], None)" for d
    using accepts_W[OF assms(1), of w d] by (auto simp: written_def)
  with assms(2) show ?thesis
    by (auto simp: MultipartWriter_Close_def closing_def)
qed

text \<open>The values that the code formats from numbers contain neither CR nor LF.\<close>

lemma digits_set: "set (digits n) \<subseteq> set ''0123456789''"
proof (induction n rule: digits.induct)
  case (1 n)
  have m: "''0123456789'' ! k \<in> set ''0123456789''" if "k < 10" for k
    using that by (intro nth_mem) simp
  show ?case
  proof (cases "n < 10")
    case True
    with m[of n] show ?thesis by (subst digits.simps) simp
  next
    case False
    with 1 m[of "n mod 10"] show ?thesis by (subst digits.simps) simp
  qed
qed

lemma validFieldValue_append: "validFieldValue (a @ b) = (validFieldValue a \<and> validFieldValue b)"
  by (auto simp: validFieldValue_def)

lemma validFieldValue_Itoa: "validFieldValue (Itoa i)"
  using digits_set[of "nat i"] digits_set[of "nat (- i)"]
  by (auto simp: validFieldValue_def Itoa_def)

lemma validFieldValue_Cons:
  "validFieldValue (c # s) = (c \<noteq> CHR 0x0D \<and> c \<noteq> CHR 0x0A \<and> validFieldValue s)"
  by (auto simp: validFieldValue_def)

lemma validFieldValue_Sprintf_code: "validFieldValue (Sprintf_code c)"
proof -
  obtain a b d where c: "c = (a, b, d)" by (cases c)
  show ?thesis
    by (simp add: c Sprintf_code_def validFieldValue_append validFieldValue_Cons validFieldValue_Itoa)
qed

section \<open>Properties of the field blocks\<close>

text \<open>
  The header that \<open>ReportingMTAInfo.WriteTo\<close> and \<open>RecipientInfo.WriteTo\<close> build when
  no early return is taken, field by field.
\<close>

lemma ReportingMTAInfo_header_Inr:
  assumes "ReportingMTAInfo_header L utf8 info = Inr h"
  shows "h =
    [(''Reporting-MTA'', ''dns; '' @ fst (dnsSelectIDNA L utf8 (ReportingMTA info)))]
    @ (if ReceivedFromMTA info \<noteq> []
       then [(''Received-From-MTA'', ''dns; '' @ fst (dnsSelectIDNA L utf8 (ReceivedFromMTA info)))]
       else [])
    @ (if XSender info \<noteq> []
       then [(xHeaderPrefix_of L (XMTAName info) @ ''-Sender'',
              tag utf8 @ fst (addrSelectIDNA L utf8 (XSender info)))]
       else [])
    @ (if XMessageID info \<noteq> []
       then [(xHeaderPrefix_of L (XMTAName info) @ ''-MsgID'', XMessageID info)]
       else [])
    @ (if \<not> time_IsZero L (ArrivalDate info)
       then [(''Arrival-Date'', time_Format L (ArrivalDate info)),
             (''Last-Attempt-Date'', time_Format L (LastAttemptDate info))]
       else [])"
  using assms unfolding ReportingMTAInfo_header_def xHeaderPrefix_of_def tag_def Add_def Let_def
  by (auto split: if_splits prod.splits option.splits sum.splits)

lemma RecipientInfo_header_Inr:
  assumes "RecipientInfo_header L utf8 info = Inr h"
  shows "h =
    [(''Final-Recipient'', tag utf8 @ fst (addrSelectIDNA L utf8 (FinalRecipient info))),
     (''Action'', Action info),
     (''Status'', Sprintf_code (Status info))]
    @ (case DiagnosticCode info of
         SMTPError code enhanced message \<Rightarrow>
           [(''Diagnostic-Code'', ''smtp; '' @ Itoa code @ '' '' @ Sprintf_code enhanced @ '' ''
                @ newLineReplacer message)]
       | OtherError text \<Rightarrow>
           (if utf8 then [(''Diagnostic-Code'', xHeaderPrefix_of L (xMTAName info) @ ''; ''
                @ newLineReplacer text)] else [])
       | DiagNil \<Rightarrow> [])
    @ (if RemoteMTA info \<noteq> []
       then [(''Remote-MTA'', ''dns; '' @ fst (dnsSelectIDNA L utf8 (RemoteMTA info)))]
       else [])"
  using assms unfolding RecipientInfo_header_def xHeaderPrefix_of_def tag_def Add_def Let_def
  by (auto split: if_splits prod.splits option.splits sum.splits diagnostic.splits)


lemma xHeaderPrefix_sample: "xHeaderPrefix_of sample [] = ''X-Godsn''"
  by (simp add: xHeaderPrefix_of_def sample_fields xMTADefaultName_def)

lemma mtaInfo1_valid: "validHeader
  [(''Reporting-MTA'', ''dns; reportingmta.example.com''),
   (''Received-From-MTA'', ''dns; receivedmta.example.com''),
   (''X-Godsn-Sender'', tag utf8 @ ''XSender@example.com''),
   (''X-Godsn-MsgID'', ''XMessageID''),
   (''Arrival-Date'', ''t5''), (''Last-Attempt-Date'', ''t7'')]"
  by (simp add: validHeader_def validFieldName_def validFieldValue_def tag_def)


lemma rcpt1_written:
  "RecipientInfo_WriteTo sample Buffer_Write False [] rcpt1 =
     (''Remote-MTA: dns; remotemta.example.com'' @ CRLF @ ''Status: 2.0.0'' @ CRLF
      @ ''Action: delivered'' @ CRLF
      @ ''Final-Recipient: rfc822; finalrcpt@example.com'' @ CRLF @ CRLF, None)"
  by (simp add: RecipientInfo_WriteTo_def rcpt1_header WriteHeader_def
        validFieldName_def validFieldValue_def Buffer_Write_def sample_fields CRLF_def)




lemma mtaInfo1_dates_header:
  "ReportingMTAInfo_header sample False (mtaInfo1\<lparr>ArrivalDate := a, LastAttemptDate := l\<rparr>) = Inr
    ([(''Reporting-MTA'', ''dns; reportingmta.example.com''),
      (''Received-From-MTA'', ''dns; receivedmta.example.com''),
      (''X-Godsn-Sender'', ''rfc822; XSender@example.com''),
      (''X-Godsn-MsgID'', ''XMessageID'')]
     @ (if a = 0 then [] else [(''Arrival-Date'', ''t'' @ digits a), (''Last-Attempt-Date'', ''t'' @ digits l)]))"
  by (simp add: ReportingMTAInfo_header_def mtaInfo1_def sample_fields dnsSelectIDNA_def
       addrSelectIDNA_def toASCII_def split_def EqualFold_def foldEq_def Add_def xMTADefaultName_def)

text \<open>
  C6. In every reporting-MTA block that is built, a Last-Attempt-Date field is present
  exactly when \<open>ArrivalDate\<close> is not the zero time, whatever \<open>LastAttemptDate\<close> is;
  its value is the formatted \<open>LastAttemptDate\<close>, and the block is what \<open>WriteTo\<close>
  hands to the header writer.
\<close>

theorem last_attempt_gate:
  "ReportingMTAInfo_header L utf8 info = Inr h \<longrightarrow>
     ((\<exists>v. (''Last-Attempt-Date'', v) \<in> set h) \<longleftrightarrow> \<not> time_IsZero L (ArrivalDate info))
     \<and> (\<forall>v. (''Last-Attempt-Date'', v) \<in> set h \<longrightarrow> v = time_Format L (LastAttemptDate info))
     \<and> ReportingMTAInfo_WriteTo L W utf8 w info = WriteHeader L W w h"
proof
  assume a: "ReportingMTAInfo_header L utf8 info = Inr h"
  have x: "xHeaderPrefix_of L (XMTAName info) @ s \<noteq> ''Last-Attempt-Date''" for s
    by (simp add: xHeaderPrefix_of_def)
  from ReportingMTAInfo_header_Inr[OF a] x
  have "((\<exists>v. (''Last-Attempt-Date'', v) \<in> set h) \<longleftrightarrow> \<not> time_IsZero L (ArrivalDate info))
     \<and> (\<forall>v. (''Last-Attempt-Date'', v) \<in> set h \<longrightarrow> v = time_Format L (LastAttemptDate info))"
    by auto
  moreover have "ReportingMTAInfo_WriteTo L W utf8 w info = WriteHeader L W w h"
    by (simp add: ReportingMTAInfo_WriteTo_def a)
  ultimately show "((\<exists>v. (''Last-Attempt-Date'', v) \<in> set h) \<longleftrightarrow> \<not> time_IsZero L (ArrivalDate info))
     \<and> (\<forall>v. (''Last-Attempt-Date'', v) \<in> set h \<longrightarrow> v = time_Format L (LastAttemptDate info))
     \<and> ReportingMTAInfo_WriteTo L W utf8 w info = WriteHeader L W w h"
    by blast
qed

theorem last_attempt_gate_witness:
  "ReportingMTAInfo_header sample False (mtaInfo1\<lparr>ArrivalDate := 0, LastAttemptDate := 7\<rparr>) = Inr
     [(''Reporting-MTA'', ''dns; reportingmta.example.com''),
      (''Received-From-MTA'', ''dns; receivedmta.example.com''),
      (''X-Godsn-Sender'', ''rfc822; XSender@example.com''),
      (''X-Godsn-MsgID'', ''XMessageID'')]
   \<and> time_IsZero sample (ArrivalDate (mtaInfo1\<lparr>ArrivalDate := 0, LastAttemptDate := 7\<rparr>))
   \<and> \<not> time_IsZero sample (LastAttemptDate (mtaInfo1\<lparr>ArrivalDate := 0, LastAttemptDate := 7\<rparr>))
   \<and> ReportingMTAInfo_header sample False (mtaInfo1\<lparr>ArrivalDate := 5, LastAttemptDate := 0\<rparr>) = Inr
     [(''Reporting-MTA'', ''dns; reportingmta.example.com''),
      (''Received-From-MTA'', ''dns; receivedmta.example.com''),
      (''X-Godsn-Sender'', ''rfc822; XSender@example.com''),
      (''X-Godsn-MsgID'', ''XMessageID''),
      (''Arrival-Date'', ''t5''), (''Last-Attempt-Date'', ''t0'')]
   \<and> \<not> time_IsZero sample (ArrivalDate (mtaInfo1\<lparr>ArrivalDate := 5, LastAttemptDate := 0\<rparr>))
   \<and> time_IsZero sample (LastAttemptDate (mtaInfo1\<lparr>ArrivalDate := 5, LastAttemptDate := 0\<rparr>))
   \<and> (\<exists>v. (''Last-Attempt-Date'', v) \<in> set
     [(''Reporting-MTA'', ''dns; reportingmta.example.com''),
      (''Received-From-MTA'', ''dns; receivedmta.example.com''),
      (''X-Godsn-Sender'', ''rfc822; XSender@example.com''),
      (''X-Godsn-MsgID'', ''XMessageID''),
      (''Arrival-Date'', ''t5''), (''Last-Attempt-Date'', ''t0'')])"
proof -
  let ?h0 = "[(''Reporting-MTA'', ''dns; reportingmta.example.com''),
      (''Received-From-MTA'', ''dns; receivedmta.example.com''),
      (''X-Godsn-Sender'', ''rfc822; XSender@example.com''),
      (''X-Godsn-MsgID'', ''XMessageID'')]"
  let ?h1 = "[(''Reporting-MTA'', ''dns; reportingmta.example.com''),
      (''Received-From-MTA'', ''dns; receivedmta.example.com''),
      (''X-Godsn-Sender'', ''rfc822; XSender@example.com''),
      (''X-Godsn-MsgID'', ''XMessageID''),
      (''Arrival-Date'', ''t5''), (''Last-Attempt-Date'', ''t0'')]"
  have a0: "ReportingMTAInfo_header sample False (mtaInfo1\<lparr>ArrivalDate := 0, LastAttemptDate := 7\<rparr>) = Inr ?h0"
    using mtaInfo1_dates_header[where a=0 and l=7] by simp
  have a1: "ReportingMTAInfo_header sample False (mtaInfo1\<lparr>ArrivalDate := 5, LastAttemptDate := 0\<rparr>) = Inr ?h1"
    using mtaInfo1_dates_header[where a=5 and l=0] by (simp add: digits_small)
  have z: "\<not> time_IsZero sample (ArrivalDate (mtaInfo1\<lparr>ArrivalDate := 5, LastAttemptDate := 0\<rparr>))"
      "time_IsZero sample (LastAttemptDate (mtaInfo1\<lparr>ArrivalDate := 5, LastAttemptDate := 0\<rparr>))"
      "time_IsZero sample (ArrivalDate (mtaInfo1\<lparr>ArrivalDate := 0, LastAttemptDate := 7\<rparr>))"
      "\<not> time_IsZero sample (LastAttemptDate (mtaInfo1\<lparr>ArrivalDate := 0, LastAttemptDate := 7\<rparr>))"
    by (simp_all add: sample_fields)
  note g = mp[OF last_attempt_gate[of sample False
             "mtaInfo1\<lparr>ArrivalDate := 5, LastAttemptDate := 0\<rparr>" ?h1 Buffer_Write "[]"] a1]
  note e = iffD2[OF conjunct1[OF g] z(1)]
  show ?thesis
    by (intro conjI; (fact a0 | fact a1 | fact z | fact e))
qed

text \<open>
  C4. When the diagnostic of a recipient is a structured SMTP error (reply code,
  enhanced code, message), the block that is built has exactly one Diagnostic-Code
  value: \<open>smtp; \<close>, the reply code, a space, the three numbers of the enhanced code
  separated by dots, a space, and the message with each CR and each LF replaced by
  one space. This holds in both encoding modes.
\<close>

theorem smtp_diagnostic:
  "DiagnosticCode info = SMTPError code (c, s, d) message \<and> RecipientInfo_header L utf8 info = Inr h
   \<longrightarrow> (\<forall>v. (''Diagnostic-Code'', v) \<in> set h \<longleftrightarrow>
          v = ''smtp; '' @ Itoa code @ '' '' @ Itoa c @ ''.'' @ Itoa s @ ''.'' @ Itoa d @ '' ''
              @ map (\<lambda>ch. if ch = CHR 0x0D \<or> ch = CHR 0x0A then CHR '' '' else ch) message)"
proof (intro impI allI)
  fix v
  assume a: "DiagnosticCode info = SMTPError code (c, s, d) message \<and> RecipientInfo_header L utf8 info = Inr h"
  then have h: "RecipientInfo_header L utf8 info = Inr h" and dc: "DiagnosticCode info = SMTPError code (c, s, d) message"
    by simp_all
  have n: "newLineReplacer message = map (\<lambda>ch. if ch = CHR 0x0D \<or> ch = CHR 0x0A then CHR '' '' else ch) message"
    by (auto simp: newLineReplacer_def)
  from RecipientInfo_header_Inr[OF h] dc n
  show "(''Diagnostic-Code'', v) \<in> set h \<longleftrightarrow>
          v = ''smtp; '' @ Itoa code @ '' '' @ Itoa c @ ''.'' @ Itoa s @ ''.'' @ Itoa d @ '' ''
              @ map (\<lambda>ch. if ch = CHR 0x0D \<or> ch = CHR 0x0A then CHR '' '' else ch) message"
    by (auto simp: Sprintf_code_def)
qed

theorem smtp_diagnostic_witness:
  "DiagnosticCode rcpt2 = SMTPError 550 (5, 1, 1) (''Mailbox not found'' @ [CHR 0x0D, CHR 0x0A] @ ''Try again'')
   \<and> RecipientInfo_header sample True rcpt2 = Inr
        [(''Final-Recipient'', ''utf8; finalrcpt@example.com''),
         (''Action'', ''failed''), (''Status'', ''5.1.1''),
         (''Diagnostic-Code'', ''smtp; 550 5.1.1 Mailbox not found  Try again'')]
   \<and> RecipientInfo_header sample False rcpt2 = Inr
        [(''Final-Recipient'', ''rfc822; finalrcpt@example.com''),
         (''Action'', ''failed''), (''Status'', ''5.1.1''),
         (''Diagnostic-Code'', ''smtp; 550 5.1.1 Mailbox not found  Try again'')]
   \<and> ''smtp; '' @ Itoa 550 @ '' '' @ Itoa 5 @ ''.'' @ Itoa 1 @ ''.'' @ Itoa 1 @ '' ''
         @ map (\<lambda>ch. if ch = CHR 0x0D \<or> ch = CHR 0x0A then CHR '' '' else ch)
             (''Mailbox not found'' @ [CHR 0x0D, CHR 0x0A] @ ''Try again'')
       = ''smtp; 550 5.1.1 Mailbox not found  Try again''"
proof -
  let ?msg = "''Mailbox not found'' @ [CHR 0x0D, CHR 0x0A] @ ''Try again''"
  let ?hT = "[(''Final-Recipient'', ''utf8; finalrcpt@example.com''),
         (''Action'', ''failed''), (''Status'', ''5.1.1''),
         (''Diagnostic-Code'', ''smtp; 550 5.1.1 Mailbox not found  Try again'')]"
  let ?hF = "[(''Final-Recipient'', ''rfc822; finalrcpt@example.com''),
         (''Action'', ''failed''), (''Status'', ''5.1.1''),
         (''Diagnostic-Code'', ''smtp; 550 5.1.1 Mailbox not found  Try again'')]"
  have d: "DiagnosticCode rcpt2 = SMTPError 550 (5, 1, 1) ?msg"
    by (simp add: rcpt2_def)
  have t: "RecipientInfo_header sample True rcpt2 = Inr ?hT"
    using rcpt2_header[of True] by (simp add: tag_def)
  have f: "RecipientInfo_header sample False rcpt2 = Inr ?hF"
    using rcpt2_header[of False] by (simp add: tag_def)
  note g = mp[OF smtp_diagnostic[of rcpt2 550 5 1 1 ?msg sample True ?hT] conjI[OF d t]]
  have m: "(''Diagnostic-Code'', ''smtp; 550 5.1.1 Mailbox not found  Try again'') \<in> set ?hT"
    by simp
  note v = iffD1[OF spec[OF g, of "''smtp; 550 5.1.1 Mailbox not found  Try again''"] m]
  show ?thesis
    by (intro conjI; (fact d | fact t | fact f | rule v[symmetric]))
qed

section \<open>GenerateDSN with an empty Reporting-MTA\<close>

lemma writeHumanReadablePart_accepts:
  assumes "accepts W"
  shows "writeHumanReadablePart L W (NewMultipartWriter L out) mtaInfo rcptsInfo =
     (\<lparr>mw_w = written W out (partStart L True humanHeader # humanChunks L mtaInfo rcptsInfo),
       mw_boundary = randomBoundary L, mw_lastpart = Some None\<rparr>, None)"
  by (simp add: writeHumanReadablePart_def NewMultipartWriter_def
        CreatePart_accepts[OF assms _ validHeader_parts(1)]
        writeAll_part_accepts[OF assms] humanChunks_def Let_def written_def)

lemma writeMachineReadablePart_accepts:
  assumes "accepts W"
  shows "writeMachineReadablePart L W utf8
     \<lparr>mw_w = w, mw_boundary = randomBoundary L, mw_lastpart = Some None\<rparr> mtaInfo rcptsInfo =
     (case ReportingMTAInfo_header L utf8 mtaInfo of
        Inl err \<Rightarrow>
          (\<lparr>mw_w = written W w [partStart L False (machineHeader utf8)],
            mw_boundary = randomBoundary L, mw_lastpart = Some None\<rparr>, Some err)
      | Inr h \<Rightarrow>
          (case WriteHeader L (part_Write W)
                  \<lparr>mw_w = written W w [partStart L False (machineHeader utf8)],
                   mw_boundary = randomBoundary L, mw_lastpart = Some None\<rparr> h of
             (machineWriter', Some err) \<Rightarrow> (machineWriter', Some err)
           | (machineWriter', None) \<Rightarrow>
               writeRecipients L W utf8 machineWriter' mtaInfo rcptsInfo))"
  by (simp add: writeMachineReadablePart_def CreatePart_accepts[OF assms _ validHeader_parts(2)]
        ReportingMTAInfo_WriteTo_def split: sum.split)

lemma GenerateDSN_accepts_empty:
  assumes "ReportingMTA mtaInfo = []" and "accepts W"
  shows "GenerateDSN L W utf8 envelope mtaInfo rcptsInfo failedHeader out =
       ([], Some (ErrorNew ''dsn: Reporting-MTA field is mandatory''),
        written W out (partStart L True humanHeader # humanChunks L mtaInfo rcptsInfo
                       @ [partStart L False (machineHeader utf8), closing L]))"
proof -
  have h: "ReportingMTAInfo_header L utf8 mtaInfo = Inl (ErrorNew ''dsn: Reporting-MTA field is mandatory'')"
    using assms(1) by (simp add: ReportingMTAInfo_header_def)
  show ?thesis
    by (simp add: GenerateDSN_def writeHumanReadablePart_accepts[OF assms(2)]
          writeMachineReadablePart_accepts[OF assms(2)] h Close_accepts[OF assms(2)] written_def)
qed

lemma partStart_nonempty: "partStart L first hdr \<noteq> []"
  by (simp add: partStart_def)

text \<open>
  C1 (amended). When \<open>ReportingMTA\<close> is empty and the sink accepts every write,
  \<open>GenerateDSN\<close> returns an empty header and the validation error
  \<open>dsn: Reporting-MTA field is mandatory\<close>; by then the sink has received, in this
  order, the boundary line and header of the human-readable part, the body of that
  part, the boundary line and header of the machine-readable part, and the closing
  boundary line that the deferred \<open>Close\<close> writes. On an in-memory buffer these bytes
  follow the old contents, so the output is not empty.
\<close>

theorem GenerateDSN_empty_ReportingMTA:
  "(ReportingMTA mtaInfo = [] \<and> accepts W \<longrightarrow>
     GenerateDSN L W utf8 envelope mtaInfo rcptsInfo failedHeader out =
       ([], Some (ErrorNew ''dsn: Reporting-MTA field is mandatory''),
        written W out (partStart L True humanHeader # humanChunks L mtaInfo rcptsInfo
                       @ [partStart L False (machineHeader utf8), closing L])))
   \<and> (ReportingMTA mtaInfo = [] \<longrightarrow>
     GenerateDSN L Buffer_Write utf8 envelope mtaInfo rcptsInfo failedHeader buf =
       ([], Some (ErrorNew ''dsn: Reporting-MTA field is mandatory''),
        buf @ partStart L True humanHeader @ humanBody L mtaInfo rcptsInfo
            @ partStart L False (machineHeader utf8) @ closing L)
     \<and> snd (snd (GenerateDSN L Buffer_Write utf8 envelope mtaInfo rcptsInfo failedHeader buf)) \<noteq> buf)"
proof (intro conjI impI)
  assume "ReportingMTA mtaInfo = [] \<and> accepts W"
  then show "GenerateDSN L W utf8 envelope mtaInfo rcptsInfo failedHeader out =
       ([], Some (ErrorNew ''dsn: Reporting-MTA field is mandatory''),
        written W out (partStart L True humanHeader # humanChunks L mtaInfo rcptsInfo
                       @ [partStart L False (machineHeader utf8), closing L]))"
    by (intro GenerateDSN_accepts_empty) simp_all
next
  assume e: "ReportingMTA mtaInfo = []"
  note g = GenerateDSN_accepts_empty[OF e accepts_Buffer, of L utf8 envelope rcptsInfo failedHeader buf]
  show "GenerateDSN L Buffer_Write utf8 envelope mtaInfo rcptsInfo failedHeader buf =
       ([], Some (ErrorNew ''dsn: Reporting-MTA field is mandatory''),
        buf @ partStart L True humanHeader @ humanBody L mtaInfo rcptsInfo
            @ partStart L False (machineHeader utf8) @ closing L)"
    unfolding g by (simp add: written_Buffer humanBody_def)
  then show "snd (snd (GenerateDSN L Buffer_Write utf8 envelope mtaInfo rcptsInfo failedHeader buf)) \<noteq> buf"
    by (simp add: partStart_nonempty)
qed

theorem GenerateDSN_empty_ReportingMTA_witness:
  "ReportingMTA (mtaInfo1\<lparr>ReportingMTA := []\<rparr>) = [] \<and> accepts Buffer_Write
   \<and> GenerateDSN sample Buffer_Write True envelope1 (mtaInfo1\<lparr>ReportingMTA := []\<rparr>) [rcpt1] [] [] =
       ([], Some (ErrorNew ''dsn: Reporting-MTA field is mandatory''),
        partStart sample True humanHeader @ humanBody sample (mtaInfo1\<lparr>ReportingMTA := []\<rparr>) [rcpt1]
          @ partStart sample False (machineHeader True) @ closing sample)
   \<and> closing sample = [CHR 0x0D, CHR 0x0A] @ ''--B--'' @ [CHR 0x0D, CHR 0x0A]"
proof -
  have e: "ReportingMTA (mtaInfo1\<lparr>ReportingMTA := []\<rparr>) = []" by simp
  note t = GenerateDSN_empty_ReportingMTA[of "mtaInfo1\<lparr>ReportingMTA := []\<rparr>" Buffer_Write
                 sample True envelope1 "[rcpt1]" "[]" "[]" "[]"]
  note g1 = mp[OF conjunct1[OF t] conjI[OF e accepts_Buffer]]
  note g2 = conjunct1[OF mp[OF conjunct2[OF t] e]]
  have c: "closing sample = [CHR 0x0D, CHR 0x0A] @ ''--B--'' @ [CHR 0x0D, CHR 0x0A]"
    by (simp add: closing_def sample_fields CRLF_def)
  show ?thesis
    using e g1 g2 c accepts_Buffer by simp
qed

text \<open>
  The claim as the specification states it (zero bytes written) fails on the input of
  the repository's test with \<open>ReportingMTA\<close> emptied: the call returns the validation
  error and the buffer, empty before the call, is not empty after it.
\<close>

theorem GenerateDSN_zero_bytes_counterexample:
  "ReportingMTA (mtaInfo1\<lparr>ReportingMTA := []\<rparr>) = []
   \<and> fst (snd (GenerateDSN sample Buffer_Write False envelope1 (mtaInfo1\<lparr>ReportingMTA := []\<rparr>)
                  [rcpt1] [] []))
       = Some (ErrorNew ''dsn: Reporting-MTA field is mandatory'')
   \<and> snd (snd (GenerateDSN sample Buffer_Write False envelope1 (mtaInfo1\<lparr>ReportingMTA := []\<rparr>)
                  [rcpt1] [] [])) \<noteq> []"
proof -
  have e: "ReportingMTA (mtaInfo1\<lparr>ReportingMTA := []\<rparr>) = []" by simp
  note g = GenerateDSN_accepts_empty[OF e accepts_Buffer, of sample False envelope1 "[rcpt1]" "[]" "[]"]
  show ?thesis
    unfolding g using e by (simp add: written_Buffer partStart_nonempty)
qed

section \<open>A recipient without a diagnostic\<close>

lemma RecipientInfo_header_ascii_nil:
  assumes "FinalRecipient info \<noteq> []" and "Action info \<noteq> []" and "fst (Status info) \<noteq> 0"
    and "DiagnosticCode info = DiagNil"
    and "snd (toASCII L (FinalRecipient info)) = None"
    and "RemoteMTA info \<noteq> [] \<longrightarrow> snd (idna_ToASCII L (RemoteMTA info)) = None"
  shows "RecipientInfo_header L False info = Inr
    ([(''Final-Recipient'', ''rfc822; '' @ fst (toASCII L (FinalRecipient info))),
      (''Action'', Action info),
      (''Status'', Sprintf_code (Status info))]
     @ (if RemoteMTA info \<noteq> [] then [(''Remote-MTA'', ''dns; '' @ fst (idna_ToASCII L (RemoteMTA info)))]
        else []))"
  using assms
  by (cases "toASCII L (FinalRecipient info)"; cases "idna_ToASCII L (RemoteMTA info)")
     (simp add: RecipientInfo_header_def addrSelectIDNA_def dnsSelectIDNA_def Add_def)

lemma validHeader_ascii_nil:
  assumes "validFieldValue f" and "validFieldValue a"
    and "rm \<noteq> [] \<longrightarrow> validFieldValue d"
  shows "validHeader
    ([(''Final-Recipient'', ''rfc822; '' @ f), (''Action'', a), (''Status'', Sprintf_code s)]
     @ (if rm \<noteq> [] then [(''Remote-MTA'', ''dns; '' @ d)] else []))"
proof -
  have n: "validFieldName ''Final-Recipient''" "validFieldName ''Action''"
      "validFieldName ''Status''" "validFieldName ''Remote-MTA''"
    by (simp_all add: validFieldName_def)
  from assms n validFieldValue_Sprintf_code[of s] show ?thesis
    by (simp add: validHeader_def validFieldValue_Cons)
qed

text \<open>
  C2 (amended). In ASCII mode, a recipient with a non-empty final recipient and action,
  a non-zero status class and no diagnostic, whose final recipient converts to ACE form
  and whose remote MTA (if there is one) converts as well, and whose action, converted
  final recipient and converted remote MTA contain neither CR nor LF, gets a block
  without a Diagnostic-Code field, all of whose fields the header writer accepts.
  \<open>WriteTo\<close> hands exactly that block to the header writer; it fails only with an
  error that a \<open>Write\<close> of the sink has returned, and on a sink that accepts every
  write, such as an in-memory buffer, it succeeds and the sink receives the lines of
  the block.
\<close>

theorem RecipientInfo_no_diagnostic_ascii:
  "FinalRecipient info \<noteq> [] \<and> Action info \<noteq> [] \<and> fst (Status info) \<noteq> 0
   \<and> DiagnosticCode info = DiagNil
   \<and> snd (toASCII L (FinalRecipient info)) = None
   \<and> (RemoteMTA info \<noteq> [] \<longrightarrow> snd (idna_ToASCII L (RemoteMTA info)) = None)
   \<and> validFieldValue (fst (toASCII L (FinalRecipient info)))
   \<and> validFieldValue (Action info)
   \<and> (RemoteMTA info \<noteq> [] \<longrightarrow> validFieldValue (fst (idna_ToASCII L (RemoteMTA info))))
   \<longrightarrow> (\<exists>h. RecipientInfo_header L False info = Inr h
            \<and> (\<forall>v. (''Diagnostic-Code'', v) \<notin> set h)
            \<and> validHeader h
            \<and> RecipientInfo_WriteTo L W False w info = WriteHeader L W w h
            \<and> (\<forall>w' e. RecipientInfo_WriteTo L W False w info = (w', Some e)
                  \<longrightarrow> (\<exists>w0 d. W w0 d = (w', Some e)))
            \<and> (accepts W \<longrightarrow> RecipientInfo_WriteTo L W False w info =
                  (written W w (textproto_fields L h @ [CRLF]), None))
            \<and> RecipientInfo_WriteTo L Buffer_Write False out info = (out @ block L h, None))"
proof
  assume a: "FinalRecipient info \<noteq> [] \<and> Action info \<noteq> [] \<and> fst (Status info) \<noteq> 0
   \<and> DiagnosticCode info = DiagNil
   \<and> snd (toASCII L (FinalRecipient info)) = None
   \<and> (RemoteMTA info \<noteq> [] \<longrightarrow> snd (idna_ToASCII L (RemoteMTA info)) = None)
   \<and> validFieldValue (fst (toASCII L (FinalRecipient info)))
   \<and> validFieldValue (Action info)
   \<and> (RemoteMTA info \<noteq> [] \<longrightarrow> validFieldValue (fst (idna_ToASCII L (RemoteMTA info))))"
  let ?h = "[(''Final-Recipient'', ''rfc822; '' @ fst (toASCII L (FinalRecipient info))),
      (''Action'', Action info),
      (''Status'', Sprintf_code (Status info))]
     @ (if RemoteMTA info \<noteq> [] then [(''Remote-MTA'', ''dns; '' @ fst (idna_ToASCII L (RemoteMTA info)))]
        else [])"
  have h: "RecipientInfo_header L False info = Inr ?h"
    using a by (intro RecipientInfo_header_ascii_nil) simp_all
  have n: "\<forall>v. (''Diagnostic-Code'', v) \<notin> set ?h"
    by simp
  have v: "validHeader ?h"
    using a by (intro validHeader_ascii_nil) simp_all
  have w: "RecipientInfo_WriteTo L W False w info = WriteHeader L W w ?h"
    by (simp only: RecipientInfo_WriteTo_def h sum.case)
  have e: "\<forall>w' e. RecipientInfo_WriteTo L W False w info = (w', Some e)
                  \<longrightarrow> (\<exists>w0 d. W w0 d = (w', Some e))"
    unfolding w
  proof (intro allI impI)
    fix w' e
    assume "WriteHeader L W w ?h = (w', Some e)"
    from WriteHeader_sink_error[OF v this] show "\<exists>w0 d. W w0 d = (w', Some e)" .
  qed
  have c: "accepts W \<longrightarrow> RecipientInfo_WriteTo L W False w info =
                  (written W w (textproto_fields L ?h @ [CRLF]), None)"
    unfolding w
  proof
    assume "accepts W"
    from WriteHeader_accepts[OF this v]
    show "WriteHeader L W w ?h = (written W w (textproto_fields L ?h @ [CRLF]), None)" .
  qed
  have b: "RecipientInfo_WriteTo L Buffer_Write False out info = (out @ block L ?h, None)"
    by (simp only: RecipientInfo_WriteTo_def h sum.case WriteHeader_Buffer[OF v])
  from h n v w e c b show "\<exists>h. RecipientInfo_header L False info = Inr h
            \<and> (\<forall>v. (''Diagnostic-Code'', v) \<notin> set h)
            \<and> validHeader h
            \<and> RecipientInfo_WriteTo L W False w info = WriteHeader L W w h
            \<and> (\<forall>w' e. RecipientInfo_WriteTo L W False w info = (w', Some e)
                  \<longrightarrow> (\<exists>w0 d. W w0 d = (w', Some e)))
            \<and> (accepts W \<longrightarrow> RecipientInfo_WriteTo L W False w info =
                  (written W w (textproto_fields L h @ [CRLF]), None))
            \<and> RecipientInfo_WriteTo L Buffer_Write False out info = (out @ block L h, None)"
    by (intro exI[of _ ?h] conjI)
qed

theorem RecipientInfo_no_diagnostic_ascii_witness:
  "FinalRecipient rcpt1 \<noteq> [] \<and> Action rcpt1 \<noteq> [] \<and> fst (Status rcpt1) \<noteq> 0
   \<and> DiagnosticCode rcpt1 = DiagNil
   \<and> snd (toASCII sample (FinalRecipient rcpt1)) = None
   \<and> RemoteMTA rcpt1 \<noteq> [] \<and> snd (idna_ToASCII sample (RemoteMTA rcpt1)) = None
   \<and> validFieldValue (fst (toASCII sample (FinalRecipient rcpt1)))
   \<and> validFieldValue (Action rcpt1)
   \<and> validFieldValue (fst (idna_ToASCII sample (RemoteMTA rcpt1)))
   \<and> accepts Buffer_Write
   \<and> RecipientInfo_WriteTo sample Buffer_Write False [] rcpt1 =
       (''Remote-MTA: dns; remotemta.example.com'' @ CRLF @ ''Status: 2.0.0'' @ CRLF
        @ ''Action: delivered'' @ CRLF
        @ ''Final-Recipient: rfc822; finalrcpt@example.com'' @ CRLF @ CRLF, None)
   \<and> RecipientInfo_WriteTo sample fullSink False [] rcpt1 = ([], Some (ErrExternal ''sink: no space left''))
   \<and> (\<exists>w0 d. fullSink w0 d = ([], Some (ErrExternal ''sink: no space left'')))
   \<and> (\<exists>h. RecipientInfo_header sample False rcpt1 = Inr h
            \<and> (\<forall>v. (''Diagnostic-Code'', v) \<notin> set h)
            \<and> RecipientInfo_WriteTo sample Buffer_Write False [] rcpt1 =
                 (written Buffer_Write [] (textproto_fields sample h @ [CRLF]), None)
            \<and> RecipientInfo_WriteTo sample Buffer_Write False [] rcpt1 = ([] @ block sample h, None))"
proof -
  have a: "FinalRecipient rcpt1 \<noteq> []" "Action rcpt1 \<noteq> []" "fst (Status rcpt1) \<noteq> 0"
      "DiagnosticCode rcpt1 = DiagNil" "snd (toASCII sample (FinalRecipient rcpt1)) = None"
      "RemoteMTA rcpt1 \<noteq> []" "snd (idna_ToASCII sample (RemoteMTA rcpt1)) = None"
      "validFieldValue (fst (toASCII sample (FinalRecipient rcpt1)))"
      "validFieldValue (Action rcpt1)"
      "validFieldValue (fst (idna_ToASCII sample (RemoteMTA rcpt1)))"
    by (simp_all add: rcpt1_def eval_simps validFieldValue_def)
  have p: "FinalRecipient rcpt1 \<noteq> [] \<and> Action rcpt1 \<noteq> [] \<and> fst (Status rcpt1) \<noteq> 0
   \<and> DiagnosticCode rcpt1 = DiagNil
   \<and> snd (toASCII sample (FinalRecipient rcpt1)) = None
   \<and> (RemoteMTA rcpt1 \<noteq> [] \<longrightarrow> snd (idna_ToASCII sample (RemoteMTA rcpt1)) = None)
   \<and> validFieldValue (fst (toASCII sample (FinalRecipient rcpt1)))
   \<and> validFieldValue (Action rcpt1)
   \<and> (RemoteMTA rcpt1 \<noteq> [] \<longrightarrow> validFieldValue (fst (idna_ToASCII sample (RemoteMTA rcpt1))))"
    using a by simp
  from mp[OF RecipientInfo_no_diagnostic_ascii[of rcpt1 sample Buffer_Write "[]" "[]"] p]
  obtain h where h: "RecipientInfo_header sample False rcpt1 = Inr h"
    and n: "\<forall>v. (''Diagnostic-Code'', v) \<notin> set h"
    and c: "accepts Buffer_Write \<longrightarrow> RecipientInfo_WriteTo sample Buffer_Write False [] rcpt1 =
                  (written Buffer_Write [] (textproto_fields sample h @ [CRLF]), None)"
    and b: "RecipientInfo_WriteTo sample Buffer_Write False [] rcpt1 = ([] @ block sample h, None)"
    by (elim exE conjE)
  note c' = mp[OF c accepts_Buffer]
  have s: "\<exists>h. RecipientInfo_header sample False rcpt1 = Inr h
            \<and> (\<forall>v. (''Diagnostic-Code'', v) \<notin> set h)
            \<and> RecipientInfo_WriteTo sample Buffer_Write False [] rcpt1 =
                 (written Buffer_Write [] (textproto_fields sample h @ [CRLF]), None)
            \<and> RecipientInfo_WriteTo sample Buffer_Write False [] rcpt1 = ([] @ block sample h, None)"
    by (rule exI[of _ h], intro conjI; (fact h | fact n | fact c' | fact b))
  have f: "RecipientInfo_WriteTo sample fullSink False [] rcpt1 = ([], Some (ErrExternal ''sink: no space left''))"
    by (simp add: RecipientInfo_WriteTo_def rcpt1_header WriteHeader_def
          validFieldName_def validFieldValue_def fullSink_def)
  from mp[OF RecipientInfo_no_diagnostic_ascii[of rcpt1 sample fullSink "[]" "[]"] p]
  obtain h' where "\<forall>w' e. RecipientInfo_WriteTo sample fullSink False [] rcpt1 = (w', Some e)
                  \<longrightarrow> (\<exists>w0 d. fullSink w0 d = (w', Some e))"
    by (elim exE conjE)
  from mp[OF spec[OF spec[OF this]] f]
  have g: "\<exists>w0 d. fullSink w0 d = ([], Some (ErrExternal ''sink: no space left''))" .
  show ?thesis
    by (intro conjI; (fact a | fact accepts_Buffer | fact rcpt1_written | fact f | fact g | fact s))
qed

text \<open>
  The claim as the specification states it fails at three inputs whose mandatory
  fields are valid and whose diagnostic is nil: in UTF-8 mode the recipient of the
  repository's test makes \<open>WriteTo\<close> panic (the call of \<open>Error()\<close> on the nil
  interface value); in ASCII mode the final recipient \<open>nobody\<close>, which has no
  at-sign, makes it return the conversion error; and in ASCII mode an action with a
  line feed in it makes the header writer return its error at the Action field, after
  the Remote-MTA and Status lines have been written.
\<close>

theorem RecipientInfo_absent_diagnostic_counterexample:
  "FinalRecipient rcpt1 \<noteq> [] \<and> Action rcpt1 \<noteq> [] \<and> fst (Status rcpt1) \<noteq> 0
   \<and> DiagnosticCode rcpt1 = DiagNil
   \<and> RecipientInfo_WriteTo sample Buffer_Write True [] rcpt1 =
        ([], Some (Panic ''runtime error: invalid memory address or nil pointer dereference''))
   \<and> FinalRecipient (rcpt1\<lparr>FinalRecipient := ''nobody''\<rparr>) \<noteq> []
   \<and> RecipientInfo_WriteTo sample Buffer_Write False [] (rcpt1\<lparr>FinalRecipient := ''nobody''\<rparr>) =
        ([], Some (ErrorWrap ''dsn: cannot convert Final-Recipient to a suitable representation''
                     (ErrorNew ''address: missing at-sign'')))
   \<and> Action (rcpt1\<lparr>Action := ''fai'' @ [CHR 0x0A] @ ''led''\<rparr>) \<noteq> []
   \<and> RecipientInfo_WriteTo sample Buffer_Write False []
        (rcpt1\<lparr>Action := ''fai'' @ [CHR 0x0A] @ ''led''\<rparr>) =
        (''Remote-MTA: dns; remotemta.example.com'' @ CRLF @ ''Status: 2.0.0'' @ CRLF,
         Some (ErrExternal ''textproto: failed to write header field Action''))"
  by (simp add: RecipientInfo_WriteTo_def RecipientInfo_header_def rcpt1_def eval_simps
        WriteHeader_def validFieldName_def validFieldValue_def Buffer_Write_def CRLF_def)

section \<open>The structure of a generated report\<close>

text \<open>
  On an in-memory buffer \<open>GenerateDSN\<close> succeeds exactly when the reporting-MTA block
  and every recipient block can be built and the header writer accepts their fields
  and those of the undelivered message's header, and then the buffer receives the three
  parts in order: the human-readable part, the machine-readable part with its blocks,
  and the part with the headers of the undelivered message.
\<close>

lemma effectiveLabel_idem:
  "effectiveLabel (if XMTAName m = [] then m\<lparr>XMTAName := xMTADefaultName\<rparr> else m) = effectiveLabel m"
  "XMTAName (if XMTAName m = [] then m\<lparr>XMTAName := xMTADefaultName\<rparr> else m) = effectiveLabel m"
  by (simp_all add: effectiveLabel_def xMTADefaultName_def)

lemma WriteHeader_invalid_ex:
  assumes "\<not> validHeader h"
  shows "\<exists>w' e. WriteHeader L W w h = (w', Some e)"
  using WriteHeader_invalid[OF assms, of L W w] by (cases "WriteHeader L W w h") auto

lemma writeRecipients_Buffer:
  assumes "list_all2 (\<lambda>r h. RecipientInfo_header L utf8 (r\<lparr>xMTAName := l\<rparr>) = Inr h \<and> validHeader h) rs hrs"
    and "effectiveLabel m = l"
  shows "writeRecipients L Buffer_Write utf8
           \<lparr>mw_w = w, mw_boundary = b, mw_lastpart = Some None\<rparr> m rs =
         (\<lparr>mw_w = w @ concat (map (block L) hrs), mw_boundary = b, mw_lastpart = Some None\<rparr>, None)"
  using assms
proof (induction rs hrs arbitrary: w m rule: list_all2_induct)
  case Nil
  show ?case by simp
next
  case (Cons r rs h hrs)
  let ?m' = "if XMTAName m = [] then m\<lparr>XMTAName := xMTADefaultName\<rparr> else m"
  have l: "XMTAName ?m' = l" "effectiveLabel ?m' = l"
    using Cons.prems effectiveLabel_idem[of m] by simp_all
  from Cons.hyps(1) have h: "RecipientInfo_header L utf8 (r\<lparr>xMTAName := l\<rparr>) = Inr h"
    and v: "validHeader h" by simp_all
  have w1: "RecipientInfo_WriteTo L (part_Write Buffer_Write) utf8
              \<lparr>mw_w = w, mw_boundary = b, mw_lastpart = Some None\<rparr> (r\<lparr>xMTAName := l\<rparr>) =
            (\<lparr>mw_w = w @ block L h, mw_boundary = b, mw_lastpart = Some None\<rparr>, None)"
    by (simp add: RecipientInfo_WriteTo_def h WriteHeader_part_accepts[OF accepts_Buffer v]
          written_Buffer block_def)
  from Cons.IH[OF l(2), of "w @ block L h"] w1 l(1)
  show ?case by (simp add: Let_def)
qed

lemma writeHeader_Buffer:
  assumes "validHeader fh"
  shows "writeHeader L Buffer_Write utf8 \<lparr>mw_w = w, mw_boundary = randomBoundary L, mw_lastpart = Some None\<rparr> fh =
     (\<lparr>mw_w = w @ partStart L False (partHeader utf8) @ block L fh,
       mw_boundary = randomBoundary L, mw_lastpart = Some None\<rparr>, None)"
  by (simp add: writeHeader_def CreatePart_accepts[OF accepts_Buffer _ validHeader_parts(3)]
        WriteHeader_part_accepts[OF accepts_Buffer assms] written_Buffer block_def)

lemma writeHeader_Buffer_invalid:
  assumes "\<not> validHeader fh"
  shows "\<exists>mw' e. writeHeader L Buffer_Write utf8
           \<lparr>mw_w = w, mw_boundary = randomBoundary L, mw_lastpart = Some None\<rparr> fh = (mw', Some e)"
  using WriteHeader_invalid_ex[OF assms]
  by (simp add: writeHeader_def CreatePart_accepts[OF accepts_Buffer _ validHeader_parts(3)])

lemma GenerateDSN_Buffer_success:
  assumes "ReportingMTAInfo_header L utf8 m = Inr hm" and "validHeader hm"
    and "list_all2 (\<lambda>r h. RecipientInfo_header L utf8 (r\<lparr>xMTAName := effectiveLabel m\<rparr>) = Inr h
                           \<and> validHeader h) rs hrs"
    and "validHeader fh"
  shows "GenerateDSN L Buffer_Write utf8 env m rs fh out =
     (reportHeader L env, None,
      out @ partStart L True humanHeader @ humanBody L m rs
          @ partStart L False (machineHeader utf8) @ block L hm @ concat (map (block L) hrs)
          @ partStart L False (partHeader utf8) @ block L fh
          @ closing L)"
  by (simp add: GenerateDSN_def writeHumanReadablePart_accepts[OF accepts_Buffer]
        writeMachineReadablePart_accepts[OF accepts_Buffer] assms(1)
        WriteHeader_part_accepts[OF accepts_Buffer assms(2)]
        writeRecipients_Buffer[OF assms(3) refl] writeHeader_Buffer[OF assms(4)]
        Close_accepts[OF accepts_Buffer] written_Buffer humanBody_def block_def)

lemma GenerateDSN_header:
  assumes "GenerateDSN L W utf8 env m rs fh out = (hdr, None, b)"
  shows "hdr = reportHeader L env"
  using assms unfolding GenerateDSN_def Let_def
  by (auto split: prod.splits option.splits)

lemma reportHeader_From: "(''From'', v) \<in> set (reportHeader L env) \<longleftrightarrow> v = From env"
  by (auto simp: reportHeader_def Add_def)

lemma reportHeader_MsgId: "(''Message-Id'', v) \<in> set (reportHeader L env) \<longleftrightarrow> v = MsgID env"
  by (auto simp: reportHeader_def Add_def)

lemma writeRecipients_Buffer_None:
  assumes "writeRecipients L Buffer_Write utf8
             \<lparr>mw_w = w, mw_boundary = b, mw_lastpart = Some None\<rparr> m rs = (mw', None)"
    and "effectiveLabel m = l"
  shows "\<exists>hrs. list_all2 (\<lambda>r h. RecipientInfo_header L utf8 (r\<lparr>xMTAName := l\<rparr>) = Inr h
                                \<and> validHeader h) rs hrs"
  using assms
proof (induction rs arbitrary: w m)
  case Nil
  show ?case by simp
next
  case (Cons r rs)
  let ?m' = "if XMTAName m = [] then m\<lparr>XMTAName := xMTADefaultName\<rparr> else m"
  let ?mw = "\<lparr>mw_w = w, mw_boundary = b, mw_lastpart = Some None\<rparr>"
  have l: "XMTAName ?m' = l" "effectiveLabel ?m' = l"
    using Cons.prems(2) effectiveLabel_idem[of m] by simp_all
  show ?case
  proof (cases "RecipientInfo_header L utf8 (r\<lparr>xMTAName := l\<rparr>)")
    case (Inl e)
    then have "writeRecipients L Buffer_Write utf8 ?mw m (r # rs) = (?mw, Some e)"
      using l(1) by (simp add: Let_def RecipientInfo_WriteTo_def)
    with Cons.prems(1) show ?thesis by simp
  next
    case (Inr h)
    show ?thesis
    proof (cases "validHeader h")
      case False
      from WriteHeader_invalid_ex[OF False, of L "part_Write Buffer_Write" ?mw]
      obtain mw1 e where "WriteHeader L (part_Write Buffer_Write) ?mw h = (mw1, Some e)" by blast
      with Inr l(1) have "writeRecipients L Buffer_Write utf8 ?mw m (r # rs) = (mw1, Some e)"
        by (simp add: Let_def RecipientInfo_WriteTo_def)
      with Cons.prems(1) show ?thesis by simp
    next
      case True
      with Inr have w1: "RecipientInfo_WriteTo L (part_Write Buffer_Write) utf8 ?mw (r\<lparr>xMTAName := l\<rparr>) =
            (\<lparr>mw_w = w @ block L h, mw_boundary = b, mw_lastpart = Some None\<rparr>, None)"
        by (simp add: RecipientInfo_WriteTo_def WriteHeader_part_accepts[OF accepts_Buffer True]
              written_Buffer block_def)
      from Cons.prems(1) w1 l(1)
      have "writeRecipients L Buffer_Write utf8
              \<lparr>mw_w = w @ block L h, mw_boundary = b, mw_lastpart = Some None\<rparr> ?m' rs = (mw', None)"
        by (simp add: Let_def)
      from Cons.IH[OF this l(2)] obtain hrs where
        "list_all2 (\<lambda>r h. RecipientInfo_header L utf8 (r\<lparr>xMTAName := l\<rparr>) = Inr h
                            \<and> validHeader h) rs hrs" by blast
      with Inr True have "list_all2 (\<lambda>r h. RecipientInfo_header L utf8 (r\<lparr>xMTAName := l\<rparr>) = Inr h
                                              \<and> validHeader h) (r # rs) (h # hrs)" by simp
      then show ?thesis by blast
    qed
  qed
qed

lemma GenerateDSN_Buffer_None:
  assumes "GenerateDSN L Buffer_Write utf8 env m rs fh out = (hdr, None, b)"
  shows "\<exists>hm hrs. ReportingMTAInfo_header L utf8 m = Inr hm \<and> validHeader hm
           \<and> list_all2 (\<lambda>r h. RecipientInfo_header L utf8 (r\<lparr>xMTAName := effectiveLabel m\<rparr>) = Inr h
                               \<and> validHeader h) rs hrs
           \<and> validHeader fh"
proof (cases "ReportingMTAInfo_header L utf8 m")
  case (Inl e)
  with assms show ?thesis
    by (simp add: GenerateDSN_def writeHumanReadablePart_accepts[OF accepts_Buffer]
          writeMachineReadablePart_accepts[OF accepts_Buffer])
next
  case (Inr hm)
  let ?w1 = "written Buffer_Write
               (written Buffer_Write out (partStart L True humanHeader # humanChunks L m rs))
               [partStart L False (machineHeader utf8)]"
  let ?mw1 = "\<lparr>mw_w = ?w1, mw_boundary = randomBoundary L, mw_lastpart = Some None\<rparr>"
  show ?thesis
  proof (cases "validHeader hm")
    case False
    from WriteHeader_invalid_ex[OF False, of L "part_Write Buffer_Write" ?mw1]
    obtain mw' e where "WriteHeader L (part_Write Buffer_Write) ?mw1 hm = (mw', Some e)" by blast
    with assms Inr show ?thesis
      by (simp add: GenerateDSN_def writeHumanReadablePart_accepts[OF accepts_Buffer]
            writeMachineReadablePart_accepts[OF accepts_Buffer])
  next
    case True
    let ?mw = "\<lparr>mw_w = written Buffer_Write ?w1 (textproto_fields L hm @ [CRLF]),
                 mw_boundary = randomBoundary L, mw_lastpart = Some None\<rparr>"
    note wh = WriteHeader_part_accepts[OF accepts_Buffer True, of L ?w1 "randomBoundary L" "Some None"]
    obtain mw' e where w: "writeRecipients L Buffer_Write utf8 ?mw m rs = (mw', e)"
      by (cases "writeRecipients L Buffer_Write utf8 ?mw m rs")
    from assms Inr w wh have e: "e = None"
      by (simp add: GenerateDSN_def writeHumanReadablePart_accepts[OF accepts_Buffer]
            writeMachineReadablePart_accepts[OF accepts_Buffer] split: option.splits)
    with w have w': "writeRecipients L Buffer_Write utf8 ?mw m rs = (mw', None)" by simp
    from writeRecipients_Buffer_None[OF w' refl] obtain hrs where
      hrs: "list_all2 (\<lambda>r h. RecipientInfo_header L utf8 (r\<lparr>xMTAName := effectiveLabel m\<rparr>) = Inr h
                               \<and> validHeader h) rs hrs" by blast
    note wr = writeRecipients_Buffer[OF hrs refl, of "written Buffer_Write ?w1 (textproto_fields L hm @ [CRLF])"
                 "randomBoundary L"]
    have "validHeader fh"
    proof (rule ccontr)
      assume "\<not> validHeader fh"
      from writeHeader_Buffer_invalid[OF this, of L utf8
             "written Buffer_Write ?w1 (textproto_fields L hm @ [CRLF]) @ concat (map (block L) hrs)"]
      obtain mw2 e2 where "writeHeader L Buffer_Write utf8
           \<lparr>mw_w = written Buffer_Write ?w1 (textproto_fields L hm @ [CRLF]) @ concat (map (block L) hrs),
            mw_boundary = randomBoundary L, mw_lastpart = Some None\<rparr> fh = (mw2, Some e2)" by blast
      with assms Inr wh wr show False
        by (simp add: GenerateDSN_def writeHumanReadablePart_accepts[OF accepts_Buffer]
              writeMachineReadablePart_accepts[OF accepts_Buffer])
    qed
    with Inr True hrs show ?thesis by blast
  qed
qed

lemma GenerateDSN_Buffer_report:
  assumes "GenerateDSN L Buffer_Write utf8 env m rs fh out = (hdr, None, b)"
  shows "\<exists>hm hrs. ReportingMTAInfo_header L utf8 m = Inr hm
           \<and> list_all2 (\<lambda>r h. RecipientInfo_header L utf8 (r\<lparr>xMTAName := effectiveLabel m\<rparr>) = Inr h) rs hrs
           \<and> b = out @ partStart L True humanHeader @ humanBody L m rs
                  @ partStart L False (machineHeader utf8) @ block L hm @ concat (map (block L) hrs)
                  @ partStart L False (partHeader utf8) @ block L fh
                  @ closing L"
proof -
  from GenerateDSN_Buffer_None[OF assms] obtain hm hrs where
    h: "ReportingMTAInfo_header L utf8 m = Inr hm" "validHeader hm"
       "list_all2 (\<lambda>r h. RecipientInfo_header L utf8 (r\<lparr>xMTAName := effectiveLabel m\<rparr>) = Inr h
                           \<and> validHeader h) rs hrs"
       "validHeader fh"
    by blast
  from GenerateDSN_Buffer_success[OF h, of env out] assms
  have b: "b = out @ partStart L True humanHeader @ humanBody L m rs
                  @ partStart L False (machineHeader utf8) @ block L hm @ concat (map (block L) hrs)
                  @ partStart L False (partHeader utf8) @ block L fh
                  @ closing L" by simp
  from h(3) have "list_all2 (\<lambda>r h. RecipientInfo_header L utf8 (r\<lparr>xMTAName := effectiveLabel m\<rparr>) = Inr h) rs hrs"
    by (rule list_all2_mono) simp
  with h(1) b show ?thesis by blast
qed

lemma rcpt2_label_header: "RecipientInfo_header sample utf8 (rcpt2\<lparr>xMTAName := ''Godsn''\<rparr>) = Inr
  [(''Final-Recipient'', tag utf8 @ ''finalrcpt@example.com''),
   (''Action'', ''failed''), (''Status'', ''5.1.1''),
   (''Diagnostic-Code'', ''smtp; 550 5.1.1 Mailbox not found  Try again'')]"
  by (simp add: RecipientInfo_header_def rcpt2_def tag_def eval_simps)

lemma rcpt1_label_header: "RecipientInfo_header sample False (rcpt1\<lparr>xMTAName := ''Godsn''\<rparr>) = Inr
  [(''Final-Recipient'', ''rfc822; finalrcpt@example.com''),
   (''Action'', ''delivered''), (''Status'', ''2.0.0''),
   (''Remote-MTA'', ''dns; remotemta.example.com'')]"
  by (simp add: RecipientInfo_header_def rcpt1_def eval_simps)

lemma effectiveLabel_mtaInfo1: "effectiveLabel mtaInfo1 = ''Godsn''"
  by (simp add: effectiveLabel_def mtaInfo1_def xMTADefaultName_def)

lemma GenerateDSN_sample:
  "GenerateDSN sample Buffer_Write utf8 env mtaInfo1 [rcpt2] [] [] =
     (reportHeader sample env, None,
      partStart sample True humanHeader @ humanBody sample mtaInfo1 [rcpt2]
        @ partStart sample False (machineHeader utf8)
        @ block sample
            [(''Reporting-MTA'', ''dns; reportingmta.example.com''),
             (''Received-From-MTA'', ''dns; receivedmta.example.com''),
             (''X-Godsn-Sender'', tag utf8 @ ''XSender@example.com''),
             (''X-Godsn-MsgID'', ''XMessageID''),
             (''Arrival-Date'', ''t5''), (''Last-Attempt-Date'', ''t7'')]
        @ block sample
            [(''Final-Recipient'', tag utf8 @ ''finalrcpt@example.com''),
             (''Action'', ''failed''), (''Status'', ''5.1.1''),
             (''Diagnostic-Code'', ''smtp; 550 5.1.1 Mailbox not found  Try again'')]
        @ partStart sample False (partHeader utf8) @ block sample []
        @ closing sample)"
proof -
  have l: "list_all2 (\<lambda>r h. RecipientInfo_header sample utf8
                (r\<lparr>xMTAName := effectiveLabel mtaInfo1\<rparr>) = Inr h \<and> validHeader h) [rcpt2]
             [[(''Final-Recipient'', tag utf8 @ ''finalrcpt@example.com''),
               (''Action'', ''failed''), (''Status'', ''5.1.1''),
               (''Diagnostic-Code'', ''smtp; 550 5.1.1 Mailbox not found  Try again'')]]"
    by (simp add: effectiveLabel_mtaInfo1 rcpt2_label_header validHeader_def validFieldName_def
          validFieldValue_def tag_def)
  have e: "validHeader []" by (simp add: validHeader_def)
  from GenerateDSN_Buffer_success[OF mtaInfo1_header mtaInfo1_valid l e, of env "[]"]
  show ?thesis by simp
qed

text \<open>
  C8. One flag decides the encoding family of a whole report. The header of the
  machine-readable part has the content type \<open>message/global-delivery-status\<close> in
  UTF-8 mode and \<open>message/delivery-status\<close> in ASCII mode; the header of the
  original-headers part has \<open>message/global-headers\<close> or \<open>message/rfc822-headers\<close>;
  the address fields (X-label-Sender, Final-Recipient) carry the tag \<open>utf8\<close> or
  \<open>rfc822\<close>. Every report that \<open>GenerateDSN\<close> completes on an in-memory buffer consists
  of these part headers and of blocks built with the same flag, so no report mixes
  the two families.
\<close>

theorem encoding_family:
  "machineHeader utf8 =
     [(''Content-Type'', if utf8 then ''message/global-delivery-status'' else ''message/delivery-status''),
      (''Content-Description'', ''Delivery report'')]
   \<and> partHeader utf8 =
     [(''Content-Description'', ''Undelivered message header''),
      (''Content-Type'', if utf8 then ''message/global-headers'' else ''message/rfc822-headers''),
      (''Content-Transfer-Encoding'', ''8bit'')]
   \<and> tag utf8 = (if utf8 then ''utf8; '' else ''rfc822; '')
   \<and> (ReportingMTAInfo_header L utf8 m = Inr h \<longrightarrow>
        (\<forall>v. (xHeaderPrefix_of L (XMTAName m) @ ''-Sender'', v) \<in> set h
           \<longrightarrow> v = tag utf8 @ fst (addrSelectIDNA L utf8 (XSender m))))
   \<and> (RecipientInfo_header L utf8 r = Inr h' \<longrightarrow>
        (\<forall>v. (''Final-Recipient'', v) \<in> set h'
           \<longrightarrow> v = tag utf8 @ fst (addrSelectIDNA L utf8 (FinalRecipient r))))
   \<and> (GenerateDSN L Buffer_Write utf8 env m rs fh out = (hdr, None, b) \<longrightarrow>
        (\<exists>hm hrs. ReportingMTAInfo_header L utf8 m = Inr hm
           \<and> list_all2 (\<lambda>r h. RecipientInfo_header L utf8 (r\<lparr>xMTAName := effectiveLabel m\<rparr>) = Inr h) rs hrs
           \<and> b = out @ partStart L True humanHeader @ humanBody L m rs
                  @ partStart L False (machineHeader utf8) @ block L hm @ concat (map (block L) hrs)
                  @ partStart L False (partHeader utf8) @ block L fh
                  @ closing L))"
proof (intro conjI impI allI)
  show "machineHeader utf8 =
     [(''Content-Type'', if utf8 then ''message/global-delivery-status'' else ''message/delivery-status''),
      (''Content-Description'', ''Delivery report'')]"
    by (simp add: machineHeader_def Add_def)
  show "partHeader utf8 =
     [(''Content-Description'', ''Undelivered message header''),
      (''Content-Type'', if utf8 then ''message/global-headers'' else ''message/rfc822-headers''),
      (''Content-Transfer-Encoding'', ''8bit'')]"
    by (simp add: partHeader_def Add_def)
  show "tag utf8 = (if utf8 then ''utf8; '' else ''rfc822; '')"
    by (simp add: tag_def)
next
  fix v
  assume a: "ReportingMTAInfo_header L utf8 m = Inr h"
    and b: "(xHeaderPrefix_of L (XMTAName m) @ ''-Sender'', v) \<in> set h"
  have x: "xHeaderPrefix_of L (XMTAName m) @ ''-Sender'' \<noteq> s"
    if "s \<in> {''Reporting-MTA'', ''Received-From-MTA'', ''Arrival-Date'', ''Last-Attempt-Date''}" for s
    using that by (auto simp: xHeaderPrefix_of_def)
  from ReportingMTAInfo_header_Inr[OF a] b x
  show "v = tag utf8 @ fst (addrSelectIDNA L utf8 (XSender m))"
    by (auto split: if_splits)
next
  fix v
  assume a: "RecipientInfo_header L utf8 r = Inr h'" and b: "(''Final-Recipient'', v) \<in> set h'"
  from RecipientInfo_header_Inr[OF a] b
  show "v = tag utf8 @ fst (addrSelectIDNA L utf8 (FinalRecipient r))"
    by (auto split: if_splits diagnostic.splits)
next
  assume "GenerateDSN L Buffer_Write utf8 env m rs fh out = (hdr, None, b)"
  then show "\<exists>hm hrs. ReportingMTAInfo_header L utf8 m = Inr hm
           \<and> list_all2 (\<lambda>r h. RecipientInfo_header L utf8 (r\<lparr>xMTAName := effectiveLabel m\<rparr>) = Inr h) rs hrs
           \<and> b = out @ partStart L True humanHeader @ humanBody L m rs
                  @ partStart L False (machineHeader utf8) @ block L hm @ concat (map (block L) hrs)
                  @ partStart L False (partHeader utf8) @ block L fh
                  @ closing L"
    by (rule GenerateDSN_Buffer_report)
qed

theorem encoding_family_witness:
  "ReportingMTAInfo_header sample True mtaInfo1 = Inr
     [(''Reporting-MTA'', ''dns; reportingmta.example.com''),
      (''Received-From-MTA'', ''dns; receivedmta.example.com''),
      (''X-Godsn-Sender'', ''utf8; XSender@example.com''),
      (''X-Godsn-MsgID'', ''XMessageID''),
      (''Arrival-Date'', ''t5''), (''Last-Attempt-Date'', ''t7'')]
   \<and> ''utf8; XSender@example.com'' = tag True @ fst (addrSelectIDNA sample True (XSender mtaInfo1))
   \<and> RecipientInfo_header sample False rcpt2 = Inr
     [(''Final-Recipient'', ''rfc822; finalrcpt@example.com''),
      (''Action'', ''failed''), (''Status'', ''5.1.1''),
      (''Diagnostic-Code'', ''smtp; 550 5.1.1 Mailbox not found  Try again'')]
   \<and> ''rfc822; finalrcpt@example.com'' = tag False @ fst (addrSelectIDNA sample False (FinalRecipient rcpt2))
   \<and> GenerateDSN sample Buffer_Write True envelope1 mtaInfo1 [rcpt2] [] [] =
     (reportHeader sample envelope1, None,
      partStart sample True humanHeader @ humanBody sample mtaInfo1 [rcpt2]
        @ partStart sample False
            [(''Content-Type'', ''message/global-delivery-status''),
             (''Content-Description'', ''Delivery report'')]
        @ block sample
            [(''Reporting-MTA'', ''dns; reportingmta.example.com''),
             (''Received-From-MTA'', ''dns; receivedmta.example.com''),
             (''X-Godsn-Sender'', ''utf8; XSender@example.com''),
             (''X-Godsn-MsgID'', ''XMessageID''),
             (''Arrival-Date'', ''t5''), (''Last-Attempt-Date'', ''t7'')]
        @ block sample
            [(''Final-Recipient'', ''utf8; finalrcpt@example.com''),
             (''Action'', ''failed''), (''Status'', ''5.1.1''),
             (''Diagnostic-Code'', ''smtp; 550 5.1.1 Mailbox not found  Try again'')]
        @ partStart sample False
            [(''Content-Description'', ''Undelivered message header''),
             (''Content-Type'', ''message/global-headers''),
             (''Content-Transfer-Encoding'', ''8bit'')]
        @ block sample []
        @ closing sample)
   \<and> (\<exists>hm hrs. ReportingMTAInfo_header sample True mtaInfo1 = Inr hm
         \<and> list_all2 (\<lambda>r h. RecipientInfo_header sample True
                               (r\<lparr>xMTAName := effectiveLabel mtaInfo1\<rparr>) = Inr h) [rcpt2] hrs
         \<and> snd (snd (GenerateDSN sample Buffer_Write True envelope1 mtaInfo1 [rcpt2] [] [])) =
             [] @ partStart sample True humanHeader @ humanBody sample mtaInfo1 [rcpt2]
             @ partStart sample False (machineHeader True) @ block sample hm
             @ concat (map (block sample) hrs)
             @ partStart sample False (partHeader True) @ block sample [] @ closing sample)"
proof -
  let ?hm = "[(''Reporting-MTA'', ''dns; reportingmta.example.com''),
      (''Received-From-MTA'', ''dns; receivedmta.example.com''),
      (''X-Godsn-Sender'', ''utf8; XSender@example.com''),
      (''X-Godsn-MsgID'', ''XMessageID''),
      (''Arrival-Date'', ''t5''), (''Last-Attempt-Date'', ''t7'')]"
  let ?hr = "[(''Final-Recipient'', ''rfc822; finalrcpt@example.com''),
      (''Action'', ''failed''), (''Status'', ''5.1.1''),
      (''Diagnostic-Code'', ''smtp; 550 5.1.1 Mailbox not found  Try again'')]"
  let ?g = "GenerateDSN sample Buffer_Write True envelope1 mtaInfo1 [rcpt2] [] []"
  have m: "ReportingMTAInfo_header sample True mtaInfo1 = Inr ?hm"
    using mtaInfo1_header[of True] by (simp add: tag_def)
  have r: "RecipientInfo_header sample False rcpt2 = Inr ?hr"
    using rcpt2_header[of False] by (simp add: tag_def)
  have x: "xHeaderPrefix_of sample (XMTAName mtaInfo1) = ''X-Godsn''"
    using xHeaderPrefix_sample by (simp add: mtaInfo1_def)
  have g: "?g = (fst ?g, None, snd (snd ?g))"
    using GenerateDSN_sample[of True envelope1] by simp
  note t = encoding_family[of True sample mtaInfo1 ?hm rcpt2 "[]" envelope1 "[rcpt2]" "[]" "[]"
             "fst ?g" "snd (snd ?g)"]
  note f = encoding_family[of False sample mtaInfo1 "[]" rcpt2 ?hr envelope1 "[rcpt2]" "[]" "[]" "[]" "[]"]
  note mt = conjunct1[OF t] and pt = conjunct1[OF conjunct2[OF t]]
  note t4 = mp[OF conjunct1[OF conjunct2[OF conjunct2[OF conjunct2[OF t]]]] m]
  note t6 = mp[OF conjunct2[OF conjunct2[OF conjunct2[OF conjunct2[OF conjunct2[OF t]]]]] g]
  note f5 = mp[OF conjunct1[OF conjunct2[OF conjunct2[OF conjunct2[OF conjunct2[OF f]]]]] r]
  have s: "''utf8; XSender@example.com'' = tag True @ fst (addrSelectIDNA sample True (XSender mtaInfo1))"
    using t4 unfolding x by simp
  have fr: "''rfc822; finalrcpt@example.com'' = tag False @ fst (addrSelectIDNA sample False (FinalRecipient rcpt2))"
    using f5 by simp
  have e: "?g = (reportHeader sample envelope1, None,
      partStart sample True humanHeader @ humanBody sample mtaInfo1 [rcpt2]
        @ partStart sample False
            [(''Content-Type'', ''message/global-delivery-status''),
             (''Content-Description'', ''Delivery report'')]
        @ block sample ?hm
        @ block sample
            [(''Final-Recipient'', ''utf8; finalrcpt@example.com''),
             (''Action'', ''failed''), (''Status'', ''5.1.1''),
             (''Diagnostic-Code'', ''smtp; 550 5.1.1 Mailbox not found  Try again'')]
        @ partStart sample False
            [(''Content-Description'', ''Undelivered message header''),
             (''Content-Type'', ''message/global-headers''),
             (''Content-Transfer-Encoding'', ''8bit'')]
        @ block sample []
        @ closing sample)"
    using GenerateDSN_sample[of True envelope1] unfolding mt pt by (simp add: tag_def)
  show ?thesis
    by (intro conjI; (fact m | fact s | fact r | fact fr | fact e | fact t6))
qed

section \<open>Properties of SendDSN\<close>

lemma nullSender_simps:
  "nullSender (Mail from) = (from = ''<>'')"
  "nullSender (Dial a)" "nullSender (Hello h)" "nullSender (Rcpt r)" "nullSender Data"
  "nullSender (DataWrite d)" "nullSender DataClose" "nullSender Close"
  by (simp_all add: nullSender_def)

lemma wr_Write_apply: "wr_Write L c d = (c @ [DataWrite d], smtp_reply L (c @ [DataWrite d]))"
  by (simp add: wr_Write_def smtp_do_def)

lemma writeFields_wr_nullSender:
  "list_all nullSender c \<Longrightarrow> list_all nullSender (fst (writeFields L (wr_Write L) c n fs))"
proof (induction fs arbitrary: c n)
  case Nil
  then show ?case by simp
next
  case (Cons f fs)
  obtain k v where f: "f = (k, v)" by (cases f)
  have "list_all nullSender (c @ [DataWrite (formatHeaderField L k v)])"
    using Cons.prems by (simp add: nullSender_simps)
  from Cons.IH[OF this, of "Suc n"] Cons.prems show ?case
    by (simp add: f wr_Write_apply[of L c "formatHeaderField L k v"] nullSender_simps
          split: option.split)
qed

lemma WriteHeader_wr_nullSender:
  assumes "list_all nullSender c"
  shows "list_all nullSender (fst (WriteHeader L (wr_Write L) c h))"
proof -
  obtain c1 e1 where c1: "writeFields L (wr_Write L) c (Suc 0) (rev h) = (c1, e1)"
    by (cases "writeFields L (wr_Write L) c (Suc 0) (rev h)")
  with writeFields_wr_nullSender[OF assms, of L "Suc 0" "rev h"] have "list_all nullSender c1" by simp
  then show ?thesis
    by (simp add: WriteHeader_def c1 wr_Write_apply[of L c1 CRLF] nullSender_simps
          split: option.split)
qed

lemma written_wr: "written (wr_Write L) c ds = c @ map DataWrite ds"
proof (induction ds arbitrary: c)
  case Nil
  show ?case by (simp add: written_def)
next
  case (Cons d ds)
  from Cons.IH[of "c @ [DataWrite d]"] show ?case
    by (simp add: written_Cons wr_Write_apply[of L c d])
qed

lemma sendRcpts_nullSender:
  "list_all nullSender c \<Longrightarrow> list_all nullSender (fst (sendRcpts L c rs))"
proof (induction rs arbitrary: c)
  case Nil
  then show ?case by simp
next
  case (Cons r rs)
  have "list_all nullSender (c @ [Rcpt (FinalRecipient r)])"
    using Cons.prems by (simp add: nullSender_simps)
  from Cons.IH[OF this] Cons.prems show ?case
    by (simp add: smtp_do_def nullSender_simps split: option.split)
qed

lemma session_nullSender:
  assumes "list_all nullSender c"
  shows "list_all nullSender (fst (session L c rs hdr body))"
proof -
  have c2: "list_all nullSender (c @ [Hello ''bla'', Mail ''<>''])"
    using assms by (simp add: nullSender_simps)
  note r = sendRcpts_nullSender[OF c2, of L rs]
  obtain c3 e3 where s3: "sendRcpts L (c @ [Hello ''bla'', Mail ''<>'']) rs = (c3, e3)"
    by (cases "sendRcpts L (c @ [Hello ''bla'', Mail ''<>'']) rs")
  have c3: "list_all nullSender c3" using r s3 by simp
  have d: "list_all nullSender (c3 @ [Data])"
    using c3 by (simp add: nullSender_simps)
  note w = WriteHeader_wr_nullSender[OF d, of L hdr]
  obtain c4 e4 where s4: "WriteHeader L (wr_Write L) (c3 @ [Data]) hdr = (c4, e4)"
    by (cases "WriteHeader L (wr_Write L) (c3 @ [Data]) hdr")
  have c4: "list_all nullSender c4" using w s4 by simp
  show ?thesis
    using assms c3 c4
    by (simp add: session_def smtp_do_def s3 s4 wr_Write_apply[of L c4 body] nullSender_simps
          split: option.split)
qed

lemma SendDSN_nullSender: "list_all nullSender (fst (SendDSN L a u env m rs fh))"
proof -
  have d: "list_all nullSender [Dial a]" by (simp add: nullSender_simps)
  obtain hdr e b where g: "GenerateDSN L Buffer_Write u
      (env\<lparr>From := ''MAILER-DAEMON (Mail Delivery System)''\<rparr>) m rs fh [] = (hdr, e, b)"
    by (cases "GenerateDSN L Buffer_Write u
      (env\<lparr>From := ''MAILER-DAEMON (Mail Delivery System)''\<rparr>) m rs fh []") auto
  obtain c' e' where s: "session L [Dial a] rs hdr b = (c', e')"
    by (cases "session L [Dial a] rs hdr b")
  have c': "list_all nullSender c'"
    using session_nullSender[OF d, of L rs hdr b] s by simp
  show ?thesis
    using c' by (simp add: SendDSN_def Let_def g s smtp_do_def nullSender_simps split: option.split)
qed

lemma sendRcpts_success:
  "sendRcpts L c rs = (c', None) \<Longrightarrow> c' = c @ map (\<lambda>r. Rcpt (FinalRecipient r)) rs"
proof (induction rs arbitrary: c)
  case Nil
  then show ?case by simp
next
  case (Cons r rs)
  from Cons.prems have "sendRcpts L (c @ [Rcpt (FinalRecipient r)]) rs = (c', None)"
    by (simp add: smtp_do_def split: option.splits)
  from Cons.IH[OF this] show ?case by simp
qed

lemma session_success:
  assumes "session L c rs hdr body = (c', None)"
  shows "c' = c @ [Hello ''bla'', Mail ''<>''] @ map (\<lambda>r. Rcpt (FinalRecipient r)) rs @ [Data]
              @ map DataWrite (textproto_fields L hdr @ [CRLF])
              @ (if body = [] then [] else [DataWrite body]) @ [DataClose]"
proof -
  obtain c3 e3 where s3: "sendRcpts L (c @ [Hello ''bla'', Mail ''<>'']) rs = (c3, e3)"
    by (cases "sendRcpts L (c @ [Hello ''bla'', Mail ''<>'']) rs")
  obtain c4 e4 where s4: "WriteHeader L (wr_Write L) (c3 @ [Data]) hdr = (c4, e4)"
    by (cases "WriteHeader L (wr_Write L) (c3 @ [Data]) hdr")
  from assms have e: "e3 = None \<and> e4 = None
      \<and> c' = c4 @ (if body = [] then [] else [DataWrite body]) @ [DataClose]"
    by (simp add: session_def smtp_do_def s3 s4 wr_Write_apply[of L c4 body]
          split: option.splits if_splits)
  from s3 e have "sendRcpts L (c @ [Hello ''bla'', Mail ''<>'']) rs = (c3, None)" by simp
  from sendRcpts_success[OF this]
  have c3: "c3 = c @ [Hello ''bla'', Mail ''<>''] @ map (\<lambda>r. Rcpt (FinalRecipient r)) rs" by simp
  from s4 e have "WriteHeader L (wr_Write L) (c3 @ [Data]) hdr = (c4, None)"
    by simp
  from WriteHeader_None[OF this]
  have c4: "c4 = c3 @ [Data] @ map DataWrite (textproto_fields L hdr @ [CRLF])"
    by (simp add: written_wr)
  from e c3 c4 show ?thesis by simp
qed

lemma SendDSN_success:
  assumes "SendDSN L a u env m rs fh = (c, None)"
  shows "\<exists>body. c = [Dial a, Hello ''bla'', Mail ''<>''] @ map (\<lambda>r. Rcpt (FinalRecipient r)) rs @ [Data]
              @ map DataWrite (textproto_fields L
                   (reportHeader L (env\<lparr>From := ''MAILER-DAEMON (Mail Delivery System)''\<rparr>)) @ [CRLF])
              @ (if body = [] then [] else [DataWrite body]) @ [DataClose, Close]"
proof -
  let ?env = "env\<lparr>From := ''MAILER-DAEMON (Mail Delivery System)''\<rparr>"
  obtain hdr e b where g: "GenerateDSN L Buffer_Write u ?env m rs fh [] = (hdr, e, b)"
    by (cases "GenerateDSN L Buffer_Write u ?env m rs fh []") auto
  obtain c' e' where s: "session L [Dial a] rs hdr b = (c', e')"
    by (cases "session L [Dial a] rs hdr b")
  from assms have x: "e = None \<and> e' = None \<and> c = c' @ [Close]"
    by (simp add: SendDSN_def Let_def g s smtp_do_def split: option.splits)
  from g x have "GenerateDSN L Buffer_Write u ?env m rs fh [] = (hdr, None, b)" by simp
  from GenerateDSN_header[OF this]
  have h: "hdr = reportHeader L ?env" .
  from s x have "session L [Dial a] rs hdr b = (c', None)" by simp
  from session_success[OF this]
  have "c' = [Dial a] @ [Hello ''bla'', Mail ''<>''] @ map (\<lambda>r. Rcpt (FinalRecipient r)) rs @ [Data]
              @ map DataWrite (textproto_fields L hdr @ [CRLF])
              @ (if b = [] then [] else [DataWrite b]) @ [DataClose]" by simp
  with x h show ?thesis by (intro exI[of _ b]) simp
qed

lemma relay_accepts: "\<forall>c. smtp_reply L c = None \<Longrightarrow> accepts (wr_Write L)"
  by (simp add: accepts_def wr_Write_def smtp_do_def)

lemma sendRcpts_ok: "\<forall>c. smtp_reply L c = None \<Longrightarrow> snd (sendRcpts L c rs) = None"
  by (induction rs arbitrary: c) (simp_all add: smtp_do_def)

lemma session_ok:
  assumes "\<forall>c. smtp_reply L c = None" and "validHeader hdr"
  shows "snd (session L c rs hdr body) = None"
proof -
  obtain c3 e3 where s3: "sendRcpts L (c @ [Hello ''bla'', Mail ''<>'']) rs = (c3, e3)"
    by (cases "sendRcpts L (c @ [Hello ''bla'', Mail ''<>'']) rs")
  with sendRcpts_ok[OF assms(1), of "c @ [Hello ''bla'', Mail ''<>'']" rs] have e3: "e3 = None" by simp
  note w = WriteHeader_accepts[OF relay_accepts[OF assms(1)] assms(2), of L "c3 @ [Data]"]
  show ?thesis
    using assms(1)
    by (simp add: session_def smtp_do_def s3 e3 w
          wr_Write_apply[of L "written (wr_Write L) (c3 @ [Data]) (textproto_fields L hdr @ [CRLF])" body])
qed

lemma SendDSN_ok:
  assumes "\<forall>c. smtp_reply L c = None"
    and "GenerateDSN L Buffer_Write u (env\<lparr>From := ''MAILER-DAEMON (Mail Delivery System)''\<rparr>) m rs fh []
           = (hdr, None, b)"
    and "validHeader hdr"
  shows "snd (SendDSN L a u env m rs fh) = None"
proof -
  obtain c' e' where s: "session L [Dial a] rs hdr b = (c', e')"
    by (cases "session L [Dial a] rs hdr b")
  with session_ok[OF assms(1) assms(3), of "[Dial a]" rs b] have "e' = None" by simp
  with s assms show ?thesis
    by (simp add: SendDSN_def Let_def smtp_do_def)
qed

text \<open>
  C10. \<open>SendDSN\<close> does not depend on the \<open>From\<close> of the envelope it is given: the
  header it generates has the From value \<open>MAILER-DAEMON (Mail Delivery System)\<close>.
  Every \<open>MAIL\<close> command of the session names the sender \<open><>\<close>, and a session
  that succeeds consists of the connection, the greeting, \<open>MAIL <>\<close>, one \<open>RCPT\<close>
  per recipient, \<open>DATA\<close>, the header with the forced From, the body, and the two
  closes.
\<close>

theorem SendDSN_sender:
  "SendDSN L smtpaddr utf8 (envelope\<lparr>From := x\<rparr>) mtaInfo rcptsInfo failedHeader
     = SendDSN L smtpaddr utf8 envelope mtaInfo rcptsInfo failedHeader
   \<and> (\<forall>v. (''From'', v) \<in> set (reportHeader L (envelope\<lparr>From := ''MAILER-DAEMON (Mail Delivery System)''\<rparr>))
          \<longleftrightarrow> v = ''MAILER-DAEMON (Mail Delivery System)'')
   \<and> (\<forall>from. Mail from \<in> set (fst (SendDSN L smtpaddr utf8 envelope mtaInfo rcptsInfo failedHeader))
          \<longrightarrow> from = ''<>'')
   \<and> (snd (SendDSN L smtpaddr utf8 envelope mtaInfo rcptsInfo failedHeader) = None \<longrightarrow>
        (\<exists>body. fst (SendDSN L smtpaddr utf8 envelope mtaInfo rcptsInfo failedHeader) =
           [Dial smtpaddr, Hello ''bla'', Mail ''<>'']
           @ map (\<lambda>r. Rcpt (FinalRecipient r)) rcptsInfo @ [Data]
           @ map DataWrite (textproto_fields L
                (reportHeader L (envelope\<lparr>From := ''MAILER-DAEMON (Mail Delivery System)''\<rparr>)) @ [CRLF])
           @ (if body = [] then [] else [DataWrite body]) @ [DataClose, Close]))"
proof (intro conjI allI impI)
  show "SendDSN L smtpaddr utf8 (envelope\<lparr>From := x\<rparr>) mtaInfo rcptsInfo failedHeader
     = SendDSN L smtpaddr utf8 envelope mtaInfo rcptsInfo failedHeader"
    by (simp add: SendDSN_def)
next
  fix v
  show "(''From'', v) \<in> set (reportHeader L (envelope\<lparr>From := ''MAILER-DAEMON (Mail Delivery System)''\<rparr>))
          \<longleftrightarrow> v = ''MAILER-DAEMON (Mail Delivery System)''"
    by (simp add: reportHeader_From)
next
  fix "from"
  assume "Mail from \<in> set (fst (SendDSN L smtpaddr utf8 envelope mtaInfo rcptsInfo failedHeader))"
  with SendDSN_nullSender[of L smtpaddr utf8 envelope mtaInfo rcptsInfo failedHeader]
  have "nullSender (Mail from)" by (simp add: list_all_iff)
  then show "from = ''<>''" by (simp add: nullSender_simps)
next
  assume "snd (SendDSN L smtpaddr utf8 envelope mtaInfo rcptsInfo failedHeader) = None"
  then have "SendDSN L smtpaddr utf8 envelope mtaInfo rcptsInfo failedHeader =
      (fst (SendDSN L smtpaddr utf8 envelope mtaInfo rcptsInfo failedHeader), None)"
    by (simp add: prod_eq_iff)
  from SendDSN_success[OF this]
  show "\<exists>body. fst (SendDSN L smtpaddr utf8 envelope mtaInfo rcptsInfo failedHeader) =
           [Dial smtpaddr, Hello ''bla'', Mail ''<>'']
           @ map (\<lambda>r. Rcpt (FinalRecipient r)) rcptsInfo @ [Data]
           @ map DataWrite (textproto_fields L
                (reportHeader L (envelope\<lparr>From := ''MAILER-DAEMON (Mail Delivery System)''\<rparr>)) @ [CRLF])
           @ (if body = [] then [] else [DataWrite body]) @ [DataClose, Close]" .
qed

theorem SendDSN_sender_witness:
  "snd (SendDSN sample ''relay:25'' False envelope1 mtaInfo1 [rcpt1] []) = None
   \<and> (\<exists>rest. fst (SendDSN sample ''relay:25'' False envelope1 mtaInfo1 [rcpt1] []) =
         [Dial ''relay:25'', Hello ''bla'', Mail ''<>'', Rcpt ''finalrcpt@example.com'', Data] @ rest)
   \<and> Mail ''<>'' \<in> set (fst (SendDSN sample ''relay:25'' False envelope1 mtaInfo1 [rcpt1] []))
   \<and> SendDSN sample ''relay:25'' False (envelope1\<lparr>From := ''someone@example.com''\<rparr>) mtaInfo1 [rcpt1] []
       = SendDSN sample ''relay:25'' False envelope1 mtaInfo1 [rcpt1] []"
proof -
  have l: "list_all2 (\<lambda>r h. RecipientInfo_header sample False
                (r\<lparr>xMTAName := effectiveLabel mtaInfo1\<rparr>) = Inr h \<and> validHeader h) [rcpt1]
             [[(''Final-Recipient'', ''rfc822; finalrcpt@example.com''),
               (''Action'', ''delivered''), (''Status'', ''2.0.0''),
               (''Remote-MTA'', ''dns; remotemta.example.com'')]]"
    by (simp add: effectiveLabel_mtaInfo1 rcpt1_label_header validHeader_def validFieldName_def
          validFieldValue_def)
  have e: "validHeader []" by (simp add: validHeader_def)
  note g = GenerateDSN_Buffer_success[OF mtaInfo1_header mtaInfo1_valid l e,
             of "envelope1\<lparr>From := ''MAILER-DAEMON (Mail Delivery System)''\<rparr>" "[]"]
  have r: "\<forall>c. smtp_reply sample c = None" by (simp add: sample_fields)
  have v: "validHeader (reportHeader sample (envelope1\<lparr>From := ''MAILER-DAEMON (Mail Delivery System)''\<rparr>))"
    by (simp add: reportHeader_def Add_def envelope1_def sample_fields digits_small
          validHeader_def validFieldName_def validFieldValue_def)
  note ok = SendDSN_ok[OF r g v, of "''relay:25''"]
  note t = SendDSN_sender[of sample "''relay:25''" False "''someone@example.com''" envelope1
             mtaInfo1 "[rcpt1]" "[]"]
  note indep = conjunct1[OF t]
  note tr = mp[OF conjunct2[OF conjunct2[OF conjunct2[OF t]]] ok]
  from tr obtain body where
    "fst (SendDSN sample ''relay:25'' False envelope1 mtaInfo1 [rcpt1] []) =
           [Dial ''relay:25'', Hello ''bla'', Mail ''<>'']
           @ map (\<lambda>r. Rcpt (FinalRecipient r)) [rcpt1] @ [Data]
           @ map DataWrite (textproto_fields sample
                (reportHeader sample (envelope1\<lparr>From := ''MAILER-DAEMON (Mail Delivery System)''\<rparr>)) @ [CRLF])
           @ (if body = [] then [] else [DataWrite body]) @ [DataClose, Close]" by blast
  then have p: "\<exists>rest. fst (SendDSN sample ''relay:25'' False envelope1 mtaInfo1 [rcpt1] []) =
         [Dial ''relay:25'', Hello ''bla'', Mail ''<>'', Rcpt ''finalrcpt@example.com'', Data] @ rest"
    by (simp add: rcpt1_def)
  then have m: "Mail ''<>'' \<in> set (fst (SendDSN sample ''relay:25'' False envelope1 mtaInfo1 [rcpt1] []))"
    by auto
  show ?thesis
    by (intro conjI; (fact ok | fact p | fact m | fact indep))
qed

end
